theory Spec2Isabelle
  imports Complex_Main "HOL-Library.Code_Target_Numeral"
begin

section \<open>JavaScript strings and numbers\<close>

text \<open>
  The read counter is kept in storage as text and goes through \<^verbatim>\<open>Number(...)\<close>,
  \<^verbatim>\<open>+ 1\<close> and \<^verbatim>\<open>String(...)\<close>. These are primitives of the language, not code of the
  repository; they are modelled here as the language standard defines them.

  A character of a \<open>string\<close> is a UTF-16 code unit below 256.

  A JavaScript number is a double. \<open>Num n\<close> is the integer \<open>n\<close>, used for the magnitudes
  up to \<open>2^53\<close> (each of these integers is a double, and \<^verbatim>\<open>String\<close> prints it in plain
  decimal). \<open>Dbl q\<close> is every other finite double but the negative zero, given by its
  exact value \<open>q\<close>.
\<close>

datatype jsnum = Num int | NaN | Dbl rat | PosInfinity | NegInfinity | NegZero

subsection \<open>Decimal digits\<close>

definition is_digit :: "char \<Rightarrow> bool" where
  "is_digit c = (c \<in> set ''0123456789'')"

definition digit_val :: "char \<Rightarrow> nat" where
  "digit_val c = length (takeWhile (\<lambda>d. d \<noteq> c) ''0123456789'')"

definition digit_char :: "nat \<Rightarrow> char" where
  "digit_char d = ''0123456789'' ! d"

definition digits_val :: "string \<Rightarrow> nat" where
  "digits_val ds = foldl (\<lambda>a c. 10 * a + digit_val c) 0 ds"

fun digits_of :: "nat \<Rightarrow> string" where
  "digits_of n =
     (if n < 10 then [digit_char n]
      else digits_of (n div 10) @ [digit_char (n mod 10)])"

declare digits_of.simps [simp del]

subsection \<open>The grammar of numeric texts\<close>

text \<open>
  The white space that \<^verbatim>\<open>Number\<close> strips from both ends: tab, line feed, vertical tab,
  form feed, carriage return, space and the no-break space.
\<close>

definition is_space :: "char \<Rightarrow> bool" where
  "is_space c = (of_char c \<in> {9, 10, 11, 12, 13, 32, 160 :: nat})"

definition trim :: "string \<Rightarrow> string" where
  "trim s = rev (dropWhile is_space (rev (dropWhile is_space s)))"

definition all_digits :: "string \<Rightarrow> bool" where
  "all_digits ds = (ds \<noteq> [] \<and> list_all is_digit ds)"

definition strip_sign :: "string \<Rightarrow> string" where
  "strip_sign t =
     (case t of [] \<Rightarrow> []
      | c # r \<Rightarrow> if c = CHR ''+'' \<or> c = CHR ''-'' then r else t)"

definition is_exponent :: "string \<Rightarrow> bool" where
  "is_exponent r =
     (case r of [] \<Rightarrow> True
      | c # r' \<Rightarrow> (c = CHR ''e'' \<or> c = CHR ''E'') \<and> all_digits (strip_sign r'))"

text \<open>
  \<^verbatim>\<open>StrUnsignedDecimalLiteral\<close> of the language standard: \<^verbatim>\<open>Infinity\<close>, or digits with an
  optional fraction and an optional exponent, with a digit before or after the point.
\<close>

definition is_unsigned_decimal :: "string \<Rightarrow> bool" where
  "is_unsigned_decimal t =
     (t = ''Infinity'' \<or>
      (let ip = takeWhile is_digit t; r = dropWhile is_digit t
       in case r of
            [] \<Rightarrow> ip \<noteq> []
          | c # r' \<Rightarrow>
              if c = CHR ''.''
              then (ip \<noteq> [] \<or> takeWhile is_digit r' \<noteq> []) \<and>
                   is_exponent (dropWhile is_digit r')
              else ip \<noteq> [] \<and> is_exponent r))"

text \<open>
  \<^verbatim>\<open>NonDecimalIntegerLiteral\<close>: \<^verbatim>\<open>0x\<close>, \<^verbatim>\<open>0o\<close> or \<^verbatim>\<open>0b\<close> (in either case) and at least
  one digit of that base; no sign.
\<close>

definition radix_digits :: "char \<Rightarrow> string" where
  "radix_digits x =
     (if x \<in> set ''xX'' then ''0123456789abcdef''
      else if x \<in> set ''oO'' then ''01234567''
      else if x \<in> set ''bB'' then ''01''
      else [])"

definition lower_hex :: "char \<Rightarrow> char" where
  "lower_hex c =
     (case List.find (\<lambda>p. fst p = c) (zip ''ABCDEF'' ''abcdef'') of
        Some p \<Rightarrow> snd p
      | None \<Rightarrow> c)"

definition is_non_decimal :: "string \<Rightarrow> bool" where
  "is_non_decimal t =
     (case t of
        z # x # ds \<Rightarrow>
          z = CHR ''0'' \<and> ds \<noteq> [] \<and> list_all (\<lambda>c. lower_hex c \<in> set (radix_digits x)) ds
      | _ \<Rightarrow> False)"

text \<open>
  A numeric text (\<^verbatim>\<open>StringNumericLiteral\<close>): white space alone, or a signed decimal
  literal or a literal of another base between optional white space.
\<close>

definition is_numeric_text :: "string \<Rightarrow> bool" where
  "is_numeric_text s =
     (let t = trim s
      in t = [] \<or> is_unsigned_decimal (strip_sign t) \<or> is_non_decimal t)"

subsection \<open>The value of a numeric text\<close>

definition pow2 :: "int \<Rightarrow> rat" where
  "pow2 e = (if 0 \<le> e then 2 ^ nat e else 1 / 2 ^ nat (- e))"

definition pow10 :: "int \<Rightarrow> rat" where
  "pow10 e = (if 0 \<le> e then 10 ^ nat e else 1 / 10 ^ nat (- e))"

definition radix_val :: "string \<Rightarrow> nat" where
  "radix_val t =
     (case t of
        z # x # ds \<Rightarrow>
          foldl (\<lambda>a c. length (radix_digits x) * a +
                       length (takeWhile (\<lambda>d. d \<noteq> lower_hex c) (radix_digits x))) 0 ds
      | _ \<Rightarrow> 0)"

text \<open>The exponent part \<^verbatim>\<open>e\<close>, sign, digits; no exponent part is the exponent \<open>0\<close>.\<close>

definition exponent_val :: "string \<Rightarrow> int" where
  "exponent_val r =
     (case r of
        [] \<Rightarrow> 0
      | c # r' \<Rightarrow>
          (case r' of
             [] \<Rightarrow> 0
           | sg # _ \<Rightarrow>
               if sg = CHR ''-'' then - int (digits_val (strip_sign r'))
               else int (digits_val (strip_sign r'))))"

text \<open>The mathematical value of an unsigned decimal literal other than \<^verbatim>\<open>Infinity\<close>.\<close>

definition decimal_val :: "string \<Rightarrow> rat" where
  "decimal_val u =
     (let ip = takeWhile is_digit u; r = dropWhile is_digit u
      in case r of
           [] \<Rightarrow> of_nat (digits_val ip)
         | c # r' \<Rightarrow>
             if c = CHR ''.''
             then (let fp = takeWhile is_digit r'
                   in of_nat (digits_val (ip @ fp)) *
                      pow10 (exponent_val (dropWhile is_digit r') - int (length fp)))
             else of_nat (digits_val ip) * pow10 (exponent_val r))"

subsection \<open>Rounding to a double\<close>

fun bit_length :: "nat \<Rightarrow> nat" where
  "bit_length n = (if n = 0 then 0 else Suc (bit_length (n div 2)))"

declare bit_length.simps [simp del]

text \<open>
  For a positive \<open>q\<close>: the \<open>e\<close> with \<open>2^e \<le> q < 2^(e+1)\<close>, and the \<open>e\<close> with
  \<open>10^e \<le> q < 10^(e+1)\<close>, each from the lengths of numerator and denominator.
\<close>

definition ilog2 :: "rat \<Rightarrow> int" where
  "ilog2 q =
     (let a = fst (quotient_of q); b = snd (quotient_of q);
          e0 = int (bit_length (nat a)) - int (bit_length (nat b))
      in if pow2 e0 \<le> q then e0 else e0 - 1)"

definition ilog10 :: "rat \<Rightarrow> int" where
  "ilog10 q =
     (let a = fst (quotient_of q); b = snd (quotient_of q);
          e0 = int (length (digits_of (nat a))) - int (length (digits_of (nat b)))
      in if pow10 e0 \<le> q then e0 else e0 - 1)"

definition round_half_even :: "rat \<Rightarrow> int" where
  "round_half_even x =
     (let f = \<lfloor>x\<rfloor>; r = x - of_int f
      in if r < 1 / 2 then f
         else if 1 / 2 < r then f + 1
         else if even f then f else f + 1)"

text \<open>
  The double nearest to a magnitude \<open>q \<ge> 0\<close>, ties to the even significand: 53 bits
  of significand, the least exponent \<open>-1022\<close> (below it the spacing stays \<open>2^-1074\<close>);
  \<open>None\<close> is the overflow to infinity.
\<close>

definition round_double :: "rat \<Rightarrow> rat option" where
  "round_double q =
     (if q = 0 then Some 0
      else
        let e = ilog2 q; p = max e (- 1022) - 52;
            d = of_int (round_half_even (q / pow2 p)) * pow2 p
        in if pow2 1024 \<le> d then None else Some d)"

text \<open>The number with a sign and a rounded magnitude.\<close>

definition mk_num :: "bool \<Rightarrow> rat option \<Rightarrow> jsnum" where
  "mk_num neg r =
     (case r of
        None \<Rightarrow> if neg then NegInfinity else PosInfinity
      | Some d \<Rightarrow>
          if d = 0 then (if neg then NegZero else Num 0)
          else if of_int \<lfloor>d\<rfloor> = d \<and> d \<le> 2 ^ 53
          then Num (if neg then - \<lfloor>d\<rfloor> else \<lfloor>d\<rfloor>)
          else Dbl (if neg then - d else d))"

subsection \<open>Number, plus one, String\<close>

text \<open>
  \<^verbatim>\<open>Number(s)\<close> for a string \<open>s\<close>: white space is trimmed; the empty text is \<open>0\<close>; a
  signed run of decimal digits up to \<open>2^53\<close> is its value (no rounding happens); any
  other numeric text is its value rounded to a double; every other text is \<open>NaN\<close>.
\<close>

definition js_Number :: "string \<Rightarrow> jsnum" where
  "js_Number s =
     (let t = trim s; u = strip_sign t; neg = (t \<noteq> [] \<and> hd t = CHR ''-'')
      in if t = [] then Num 0
         else if all_digits u \<and> int (digits_val u) \<le> 2 ^ 53 then
           (let v = int (digits_val u)
            in if neg then (if v = 0 then NegZero else Num (- v)) else Num v)
         else if u = ''Infinity'' then (if neg then NegInfinity else PosInfinity)
         else if is_unsigned_decimal u then mk_num neg (round_double (decimal_val u))
         else if is_non_decimal t then mk_num False (round_double (of_nat (radix_val t)))
         else NaN)"

text \<open>
  \<^verbatim>\<open>count + 1\<close>: the exact sum rounded to a double. On the integers it is exact below
  \<open>2^53\<close>; \<open>2^53 + 1\<close> is no double and rounds back to \<open>2^53\<close>.
\<close>

fun js_add1 :: "jsnum \<Rightarrow> jsnum" where
  "js_add1 (Num n) = Num (if n = 2 ^ 53 then n else n + 1)"
| "js_add1 NaN = NaN"
| "js_add1 (Dbl q) = mk_num (q + 1 < 0) (round_double \<bar>q + 1\<bar>)"
| "js_add1 PosInfinity = PosInfinity"
| "js_add1 NegInfinity = NegInfinity"
| "js_add1 NegZero = Num 1"

text \<open>
  \<^verbatim>\<open>String(x)\<close> for a positive double \<open>q\<close> takes the least number \<open>k\<close> of digits for
  which some \<open>s\<close> of \<open>k\<close> digits and some \<open>n\<close> give a value \<open>s * 10^(n - k)\<close> that rounds
  to \<open>q\<close>, and of these the \<open>s\<close> nearest to \<open>q\<close>. With \<open>k\<close> digits only the two
  neighbours of \<open>q\<close> can do.
\<close>

definition candidate :: "rat \<Rightarrow> int \<Rightarrow> nat \<Rightarrow> (nat \<times> int) option" where
  "candidate q n0 k =
     (let scale = pow10 (n0 - int k); x = q / scale;
          lo = \<lfloor>x\<rfloor>; hi = \<lceil>x\<rceil>;
          vlo = (round_double (of_int lo * scale) = Some q);
          vhi = (round_double (of_int hi * scale) = Some q);
          dlo = x - of_int lo; dhi = of_int hi - x;
          pick = (if vlo \<and> vhi then
                    (if dlo < dhi then Some lo
                     else if dhi < dlo then Some hi
                     else if even lo then Some lo else Some hi)
                  else if vlo then Some lo
                  else if vhi then Some hi
                  else None)
      in case pick of
           None \<Rightarrow> None
         | Some c \<Rightarrow>
             if c = 10 ^ k then Some (10 ^ (k - 1), n0 + 1) else Some (nat c, n0))"

text \<open>Seventeen digits tell every double from its neighbours.\<close>

definition shortest :: "rat \<Rightarrow> nat \<times> int" where
  "shortest q =
     (let n0 = ilog10 q + 1
      in case List.map_filter (candidate q n0) [1..<18] of
           r # _ \<Rightarrow> r
         | [] \<Rightarrow> (nat (round_half_even (q / pow10 (n0 - 17))), n0))"

definition show_exponent :: "int \<Rightarrow> string" where
  "show_exponent e =
     (if e < 0 then CHR ''-'' # digits_of (nat (- e)) else CHR ''+'' # digits_of (nat e))"

text \<open>The notation: plain up to 21 digits before the point and 6 zeros after it.\<close>

definition show_positive :: "rat \<Rightarrow> string" where
  "show_positive q =
     (let ds = digits_of (fst (shortest q)); n = snd (shortest q); k = int (length ds)
      in if k \<le> n \<and> n \<le> 21 then ds @ replicate (nat (n - k)) CHR ''0''
         else if 0 < n \<and> n \<le> 21 then take (nat n) ds @ ''.'' @ drop (nat n) ds
         else if - 6 < n \<and> n \<le> 0 then ''0.'' @ replicate (nat (- n)) CHR ''0'' @ ds
         else if k = 1 then ds @ ''e'' @ show_exponent (n - 1)
         else take 1 ds @ ''.'' @ drop 1 ds @ ''e'' @ show_exponent (n - 1))"

fun js_String :: "jsnum \<Rightarrow> string" where
  "js_String (Num n) =
     (if n < 0 then CHR ''-'' # digits_of (nat (- n)) else digits_of (nat n))"
| "js_String NaN = ''NaN''"
| "js_String (Dbl q) = (if q < 0 then CHR ''-'' # show_positive (- q) else show_positive q)"
| "js_String PosInfinity = ''Infinity''"
| "js_String NegInfinity = ''-Infinity''"
| "js_String NegZero = ''0''"

section \<open>The key-value storage\<close>

text \<open>
  \<^verbatim>\<open>StorageLike\<close> is modelled by the in-memory fallback of \<^verbatim>\<open>safeStorage\<close>, a
  \<^verbatim>\<open>Map<string, string>\<close>: the entries in insertion order. \<^verbatim>\<open>set\<close> on a key that is
  present replaces the value where it stands, on a new key it appends; \<^verbatim>\<open>delete\<close>
  removes the entry.
\<close>

type_synonym storage = "(string \<times> string) list"

definition storage_length :: "storage \<Rightarrow> nat" where
  "storage_length s = length s"

definition storage_key :: "storage \<Rightarrow> nat \<Rightarrow> string option" where
  "storage_key s i = (if i < length s then Some (fst (s ! i)) else None)"

definition getItem :: "storage \<Rightarrow> string \<Rightarrow> string option" where
  "getItem s k = map_of s k"

fun setItem :: "storage \<Rightarrow> string \<Rightarrow> string \<Rightarrow> storage" where
  "setItem [] k v = [(k, v)]"
| "setItem ((k', v') # s) k v =
     (if k' = k then (k, v) # s else (k', v') # setItem s k v)"

definition removeItem :: "storage \<Rightarrow> string \<Rightarrow> storage" where
  "removeItem s k = filter (\<lambda>e. fst e \<noteq> k) s"

section \<open>Read statistics (utils.ts)\<close>

definition readCountKey :: "string \<Rightarrow> string" where
  "readCountKey collectionName = ''@romyapps:readCount::'' @ collectionName"

definition lastFetchedKey :: "string \<Rightarrow> string" where
  "lastFetchedKey collectionName = ''@romyapps:lastFetched::'' @ collectionName"

text \<open>
  \<^verbatim>\<open>recordReadStats(storage, collectionName)\<close>. The argument \<open>now\<close> is the text that
  \<^verbatim>\<open>new Date().toISOString()\<close> gives at the call. Without a storage nothing is written
  and \<^verbatim>\<open>undefined\<close> is returned (\<open>None\<close> in the second component); otherwise the result
  is \<^verbatim>\<open>{ updated }\<close>.
\<close>

definition recordReadStats ::
  "storage option \<Rightarrow> string \<Rightarrow> string \<Rightarrow> storage option \<times> jsnum option" where
  "recordReadStats storage collectionName now =
     (case storage of
        None \<Rightarrow> (None, None)
      | Some s \<Rightarrow>
          (let key = readCountKey collectionName;
               lfKey = lastFetchedKey collectionName;
               count = js_Number (case getItem s key of None \<Rightarrow> ''0'' | Some v \<Rightarrow> v);
               updated = js_add1 count;
               s1 = setItem s key (js_String updated);
               s2 = setItem s1 lfKey now
           in (Some s2, Some updated)))"

record stats =
  readCount :: jsnum
  lastFetched :: "string option"

definition getCollectionStats :: "storage option \<Rightarrow> string \<Rightarrow> stats" where
  "getCollectionStats storage collectionName =
     (case storage of
        None \<Rightarrow> \<lparr>readCount = Num 0, lastFetched = None\<rparr>
      | Some s \<Rightarrow>
          \<lparr>readCount = js_Number (case getItem s (readCountKey collectionName) of
                                    None \<Rightarrow> ''0'' | Some v \<Rightarrow> v),
           lastFetched = getItem s (lastFetchedKey collectionName)\<rparr>)"

definition clearCollectionStats :: "storage option \<Rightarrow> string \<Rightarrow> storage option" where
  "clearCollectionStats storage collectionName =
     (case storage of
        None \<Rightarrow> None
      | Some s \<Rightarrow>
          Some (removeItem (removeItem s (readCountKey collectionName))
                  (lastFetchedKey collectionName)))"

definition startsWith :: "string \<Rightarrow> string \<Rightarrow> bool" where
  "startsWith k p = (take (length p) k = p)"

text \<open>
  The scan of \<^verbatim>\<open>clearAllCollectionStats\<close>: \<open>i\<close> runs up to \<^verbatim>\<open>storage.length\<close>, a key
  that is \<^verbatim>\<open>null\<close> or empty is skipped, a key under one of the two prefixes is pushed.
\<close>

function scan_keys :: "storage \<Rightarrow> nat \<Rightarrow> string list \<Rightarrow> string list" where
  "scan_keys s i toRemove =
     (if i < storage_length s then
        (case storage_key s i of
           None \<Rightarrow> scan_keys s (i + 1) toRemove
         | Some k \<Rightarrow>
             if k = [] then scan_keys s (i + 1) toRemove
             else if startsWith k ''@romyapps:readCount::'' \<or>
                     startsWith k ''@romyapps:lastFetched::''
             then scan_keys s (i + 1) (toRemove @ [k])
             else scan_keys s (i + 1) toRemove)
      else toRemove)"
  by pat_completeness auto
termination
  by (relation "measure (\<lambda>(s, i, _). storage_length s - i)") auto

declare scan_keys.simps [simp del]

definition clearAllCollectionStats :: "storage option \<Rightarrow> storage option \<times> nat" where
  "clearAllCollectionStats storage =
     (case storage of
        None \<Rightarrow> (None, 0)
      | Some s \<Rightarrow>
          let toRemove = scan_keys s 0 []
          in (Some (foldl removeItem s toRemove), length toRemove))"

text \<open>The keys that belong to the read statistics: the two prefixes of the scan.\<close>

definition stats_key :: "string \<Rightarrow> bool" where
  "stats_key k =
     (startsWith k ''@romyapps:readCount::'' \<or> startsWith k ''@romyapps:lastFetched::'')"

text \<open>The stored count as \<open>recordReadStats\<close> reads it, and what a call leaves behind.\<close>

definition stored_count :: "storage \<Rightarrow> string \<Rightarrow> jsnum" where
  "stored_count s c =
     js_Number (case getItem s (readCountKey c) of None \<Rightarrow> ''0'' | Some v \<Rightarrow> v)"

definition records_read ::
  "storage \<Rightarrow> string \<Rightarrow> string \<Rightarrow> jsnum \<Rightarrow> string \<Rightarrow> bool" where
  "records_read s c now updated txt =
     (\<exists>s'. recordReadStats (Some s) c now = (Some s', Some updated) \<and>
           getItem s' (readCountKey c) = Some txt \<and>
           getItem s' (lastFetchedKey c) = Some now \<and>
           (\<forall>k. k \<noteq> readCountKey c \<and> k \<noteq> lastFetchedKey c \<longrightarrow> getItem s' k = getItem s k))"

section \<open>Values, snapshots and queries of the document store\<close>

text \<open>
  A record of the store is a JavaScript object: a finite map from field names to
  values. \<open>VServerTimestamp\<close> is the marker that \<^verbatim>\<open>serverTimestamp()\<close> returns, \<open>VDate\<close> a
  \<^verbatim>\<open>new Date()\<close> read from the clock.
\<close>

datatype val =
    VStr string
  | VNum jsnum
  | VBool bool
  | VNull
  | VUndefined
  | VServerTimestamp
  | VDate nat
  | VObj "string \<Rightarrow> val option"

type_synonym fields = "string \<Rightarrow> val option"

datatype error = Err string

record docSnapshot =
  snap_id :: string
  snap_exists :: bool
  snap_data :: fields

record querySnapshot =
  docs :: "docSnapshot list"

definition empty_snapshot :: "querySnapshot \<Rightarrow> bool" where
  "empty_snapshot snap = (docs snap = [])"

datatype whereFilterOp =
  Lt | Le | Eq | Ne | Ge | Gt | ArrayContains | In | ArrayContainsAny | NotIn

datatype direction = Asc | Desc

datatype cursorType = After | Before

record whereClause =
  w_field :: string
  w_operator :: whereFilterOp
  w_value :: val

record orderByClause =
  o_field :: string
  o_direction :: "direction option"

record cursorConfig =
  c_type :: cursorType
  c_doc :: "docSnapshot option"

record collectionOptions =
  opt_where :: "whereClause list option"
  opt_orderBy :: "orderByClause list option"
  opt_limit :: "jsnum option"
  opt_cursor :: "cursorConfig option"

text \<open>
  The constraint objects of the SDK. Its constructors \<^verbatim>\<open>where\<close>, \<^verbatim>\<open>orderBy\<close>, \<^verbatim>\<open>limit\<close>,
  \<^verbatim>\<open>startAfter\<close> and \<^verbatim>\<open>endBefore\<close> are taken as constructors of values: what the SDK
  checks of their arguments is no part of this repository.
\<close>

datatype queryConstraint =
    Where string whereFilterOp val
  | OrderBy string direction
  | Limit jsnum
  | StartAfter docSnapshot
  | EndBefore docSnapshot

record query =
  q_collection :: string
  q_constraints :: "queryConstraint list"

datatype docRef = DocRef string val

section \<open>The constraint builder (utils.ts)\<close>

text \<open>
  \<^verbatim>\<open>buildConstraints(opts)\<close>: the array \<open>constraints\<close> grows by \<^verbatim>\<open>push\<close>, one block of
  the source after the other. \<^verbatim>\<open>opts.where?.length\<close> is true for a list that is there
  and not empty; \<^verbatim>\<open>typeof opts.limit === "number"\<close> for every limit that is there;
  \<^verbatim>\<open>opts.cursor.doc\<close> for every snapshot that is not \<^verbatim>\<open>null\<close>.
\<close>

definition push_where :: "queryConstraint list \<Rightarrow> whereClause \<Rightarrow> queryConstraint list" where
  "push_where constraints clause =
     constraints @ [Where (w_field clause) (w_operator clause) (w_value clause)]"

definition push_orderBy :: "queryConstraint list \<Rightarrow> orderByClause \<Rightarrow> queryConstraint list" where
  "push_orderBy constraints ob =
     constraints @
       [OrderBy (o_field ob) (case o_direction ob of None \<Rightarrow> Asc | Some d \<Rightarrow> d)]"

definition buildConstraints :: "collectionOptions option \<Rightarrow> queryConstraint list" where
  "buildConstraints opts =
     (case opts of
        None \<Rightarrow> []
      | Some ops \<Rightarrow>
          let c0 = [];
              c1 = (case opt_where ops of
                      None \<Rightarrow> c0
                    | Some cl \<Rightarrow> if length cl \<noteq> 0 then foldl push_where c0 cl else c0);
              c2 = (case opt_orderBy ops of
                      None \<Rightarrow> c1
                    | Some obs \<Rightarrow> if length obs \<noteq> 0 then foldl push_orderBy c1 obs else c1);
              c3 = (case opt_limit ops of None \<Rightarrow> c2 | Some n \<Rightarrow> c2 @ [Limit n]);
              c4 = (case opt_cursor ops of
                      None \<Rightarrow> c3
                    | Some cur \<Rightarrow>
                        (case c_doc cur of
                           None \<Rightarrow> c3
                         | Some d \<Rightarrow> if c_type cur = After then c3 @ [StartAfter d] else c3));
              c5 = (case opt_cursor ops of
                      None \<Rightarrow> c4
                    | Some cur \<Rightarrow>
                        (case c_doc cur of
                           None \<Rightarrow> c4
                         | Some d \<Rightarrow> if c_type cur = Before then c4 @ [EndBefore d] else c4))
          in c5)"

text \<open>The sequence the specification describes, group by group.\<close>

definition filter_constraints :: "collectionOptions \<Rightarrow> queryConstraint list" where
  "filter_constraints ops =
     map (\<lambda>c. Where (w_field c) (w_operator c) (w_value c))
       (case opt_where ops of None \<Rightarrow> [] | Some cl \<Rightarrow> cl)"

definition sort_constraints :: "collectionOptions \<Rightarrow> queryConstraint list" where
  "sort_constraints ops =
     map (\<lambda>ob. OrderBy (o_field ob) (case o_direction ob of None \<Rightarrow> Asc | Some d \<Rightarrow> d))
       (case opt_orderBy ops of None \<Rightarrow> [] | Some obs \<Rightarrow> obs)"

definition limit_constraints :: "collectionOptions \<Rightarrow> queryConstraint list" where
  "limit_constraints ops = (case opt_limit ops of None \<Rightarrow> [] | Some n \<Rightarrow> [Limit n])"

definition cursor_constraints :: "collectionOptions \<Rightarrow> queryConstraint list" where
  "cursor_constraints ops =
     (case opt_cursor ops of
        None \<Rightarrow> []
      | Some cur \<Rightarrow>
          (case c_doc cur of
             None \<Rightarrow> []
           | Some d \<Rightarrow> (case c_type cur of After \<Rightarrow> [StartAfter d] | Before \<Rightarrow> [EndBefore d])))"

section \<open>The cache-mode resolver (utils.ts)\<close>

text \<open>
  The store is outside the repository. What it answers to the three reads of the SDK
  (from the cache, from the server, the combined read) is given with the call: a
  rejection (\<open>Inl\<close>) or a snapshot. Every call of the store, of the logger, of the error
  handler and of the query cache is appended to a trace of events.
\<close>

datatype preferCacheMode = Default | CacheFirst | CacheOnly | ServerOnly

datatype readPath = FromCache | FromServer | FromSdk

record 'a reads =
  fromCache :: "error + 'a"
  fromServer :: "error + 'a"
  fromSdk :: "error + 'a"

datatype event =
    GetDocs readPath query
  | GetDoc readPath docRef
  | AddDoc string fields
  | UpdateDoc docRef fields
  | DeleteDoc docRef
  | LogDebug string
  | LogWarn string "error option"
  | LogError error
  | OnError error string
  | Invalidate "val list"

fun getDocsByMode ::
  "querySnapshot reads \<Rightarrow> query \<Rightarrow> preferCacheMode \<Rightarrow> event list \<Rightarrow>
     (error + querySnapshot) \<times> event list" where
  "getDocsByMode r q CacheOnly tr = (fromCache r, tr @ [GetDocs FromCache q])"
| "getDocsByMode r q ServerOnly tr = (fromServer r, tr @ [GetDocs FromServer q])"
| "getDocsByMode r q CacheFirst tr =
     (let tr1 = tr @ [GetDocs FromCache q]
      in case fromCache r of
           Inr snap \<Rightarrow>
             if \<not> empty_snapshot snap then (Inr snap, tr1)
             else (fromServer r, tr1 @ [GetDocs FromServer q])
         | Inl _ \<Rightarrow> (fromServer r, tr1 @ [GetDocs FromServer q]))"
| "getDocsByMode r q Default tr = (fromSdk r, tr @ [GetDocs FromSdk q])"

fun getDocByMode ::
  "docSnapshot reads \<Rightarrow> docRef \<Rightarrow> preferCacheMode \<Rightarrow> event list \<Rightarrow>
     (error + docSnapshot) \<times> event list" where
  "getDocByMode r ref CacheOnly tr = (fromCache r, tr @ [GetDoc FromCache ref])"
| "getDocByMode r ref ServerOnly tr = (fromServer r, tr @ [GetDoc FromServer ref])"
| "getDocByMode r ref CacheFirst tr =
     (let tr1 = tr @ [GetDoc FromCache ref]
      in case fromCache r of
           Inr snap \<Rightarrow>
             if snap_exists snap then (Inr snap, tr1)
             else (fromServer r, tr1 @ [GetDoc FromServer ref])
         | Inl _ \<Rightarrow> (fromServer r, tr1 @ [GetDoc FromServer ref]))"
| "getDocByMode r ref Default tr = (fromSdk r, tr @ [GetDoc FromSdk ref])"

text \<open>The reads of a trace that went to the server, and their number.\<close>

fun is_server_read :: "event \<Rightarrow> bool" where
  "is_server_read (GetDocs p _) = (p = FromServer)"
| "is_server_read (GetDoc p _) = (p = FromServer)"
| "is_server_read _ = False"

definition server_reads :: "event list \<Rightarrow> nat" where
  "server_reads tr = length (filter is_server_read tr)"

section \<open>Configuration and its sinks (types.ts)\<close>

text \<open>
  The logger is a sink whose methods are each optional: the record says which of them
  exist. A call \<^verbatim>\<open>cfg.logger?.warn?.(...)\<close> is an event of the trace if the method
  exists and nothing otherwise; the same holds for the error handler \<^verbatim>\<open>cfg.onError\<close>.
  \<open>getUserId\<close> is \<open>None\<close> where the callback is missing, else what it returns; of
  \<^verbatim>\<open>defaultQueryOptions\<close> only the entry \<^verbatim>\<open>enabled\<close> matters here.
\<close>

record logger =
  has_debug :: bool
  has_warn :: bool
  has_error :: bool

record loggingConfig =
  resolveLogCollection :: "(string \<Rightarrow> string) option"
  includePreviousData :: "bool option"

record config =
  getUserId :: "string option option"
  cfg_logger :: "logger option"
  has_onError :: bool
  keyPrefix :: "string option"
  logging :: "loggingConfig option"
  default_enabled :: "bool option"

definition logger_debug :: "config \<Rightarrow> string \<Rightarrow> event list \<Rightarrow> event list" where
  "logger_debug cfg msg tr =
     (case cfg_logger cfg of
        None \<Rightarrow> tr
      | Some l \<Rightarrow> if has_debug l then tr @ [LogDebug msg] else tr)"

definition logger_warn :: "config \<Rightarrow> string \<Rightarrow> error option \<Rightarrow> event list \<Rightarrow> event list" where
  "logger_warn cfg msg e tr =
     (case cfg_logger cfg of
        None \<Rightarrow> tr
      | Some l \<Rightarrow> if has_warn l then tr @ [LogWarn msg e] else tr)"

definition logger_error :: "config \<Rightarrow> error \<Rightarrow> event list \<Rightarrow> event list" where
  "logger_error cfg e tr =
     (case cfg_logger cfg of
        None \<Rightarrow> tr
      | Some l \<Rightarrow> if has_error l then tr @ [LogError e] else tr)"

definition call_onError :: "config \<Rightarrow> error \<Rightarrow> string \<Rightarrow> event list \<Rightarrow> event list" where
  "call_onError cfg e ctx tr = (if has_onError cfg then tr @ [OnError e ctx] else tr)"

definition defaultResolveLogCollection :: "string \<Rightarrow> string" where
  "defaultResolveLogCollection name = name @ ''_log''"

definition getKeyPrefix :: "config \<Rightarrow> string" where
  "getKeyPrefix cfg = (case keyPrefix cfg of None \<Rightarrow> ''rf'' | Some p \<Rightarrow> p)"

text \<open>
  \<^verbatim>\<open>cfg.logging?.resolveLogCollection?.(collectionName) ?? defaultResolveLogCollection(collectionName)\<close>
\<close>

definition logCol_of :: "config \<Rightarrow> string \<Rightarrow> string" where
  "logCol_of cfg collectionName =
     (case logging cfg of
        None \<Rightarrow> defaultResolveLogCollection collectionName
      | Some l \<Rightarrow>
          (case resolveLogCollection l of
             None \<Rightarrow> defaultResolveLogCollection collectionName
           | Some f \<Rightarrow> f collectionName))"

definition convertDocSnapshot :: "docSnapshot \<Rightarrow> fields option" where
  "convertDocSnapshot snapshot =
     (if \<not> snap_exists snapshot then None
      else Some ([''id'' \<mapsto> VStr (snap_id snapshot)] ++ snap_data snapshot))"

definition convertQuerySnapshot :: "querySnapshot \<Rightarrow> fields list" where
  "convertQuerySnapshot snapshot =
     map (\<lambda>d. [''id'' \<mapsto> VStr (snap_id d)] ++ snap_data d) (docs snapshot)"

section \<open>The query and mutation library\<close>

text \<open>
  The library that runs queries and mutations is outside the repository. Of its contract
  the model keeps this: a query that is not enabled does not run its function and has
  no data; an enabled query runs its function once (the hooks switch retries off) and
  ends with the data or with the error; a mutation runs its function, then \<open>onSuccess\<close>
  with the data or \<open>onError\<close> with the error, and ends in that state.
\<close>

datatype 'a queryState = NotFetched | QSuccess 'a | QError error

datatype 'a mutationState = MSuccess 'a | MError error

definition useQuery ::
  "bool \<Rightarrow> (event list \<Rightarrow> (error + 'a) \<times> event list) \<Rightarrow> event list \<Rightarrow>
     'a queryState \<times> event list" where
  "useQuery enabled queryFn tr =
     (if enabled then
        (case queryFn tr of
           (Inr d, tr') \<Rightarrow> (QSuccess d, tr')
         | (Inl e, tr') \<Rightarrow> (QError e, tr'))
      else (NotFetched, tr))"

definition useMutation ::
  "(event list \<Rightarrow> (error + 'a) \<times> event list) \<Rightarrow> ('a \<Rightarrow> event list \<Rightarrow> event list) \<Rightarrow>
     (error \<Rightarrow> event list \<Rightarrow> event list) \<Rightarrow> event list \<Rightarrow>
     'a mutationState \<times> event list" where
  "useMutation mutationFn onSuccess onError tr =
     (case mutationFn tr of
        (Inr d, tr') \<Rightarrow> (MSuccess d, onSuccess d tr')
      | (Inl e, tr') \<Rightarrow> (MError e, onError e tr'))"

section \<open>The read hook of a single document\<close>

record behavior =
  preferCache :: "preferCacheMode option"
  withMeta :: "bool option"
  b_debug :: "bool option"
  b_enabled :: "bool option"

text \<open>
  \<^verbatim>\<open>!documentId\<close> holds for \<^verbatim>\<open>null\<close>, \<^verbatim>\<open>undefined\<close> (both \<open>None\<close>) and the empty string.
\<close>

definition absent_id :: "string option \<Rightarrow> bool" where
  "absent_id documentId = (case documentId of None \<Rightarrow> True | Some i \<Rightarrow> i = [])"

definition useDocument_queryFn ::
  "config \<Rightarrow> docSnapshot reads \<Rightarrow> string \<Rightarrow> string option \<Rightarrow> preferCacheMode \<Rightarrow> bool \<Rightarrow>
     event list \<Rightarrow> (error + fields option) \<times> event list" where
  "useDocument_queryFn cfg r collectionName documentId preferCache' debug' tr =
     (case documentId of
        None \<Rightarrow> (Inr None, tr)
      | Some i \<Rightarrow>
          if i = [] then (Inr None, tr)
          else
            (let ref = DocRef collectionName (VStr i)
             in case getDocByMode r ref preferCache' tr of
                  (Inl e, tr1) \<Rightarrow> (Inl e, tr1)
                | (Inr snapshot, tr1) \<Rightarrow>
                    (Inr (convertDocSnapshot snapshot),
                     if debug' then logger_debug cfg (collectionName @ ''/'' @ i) tr1
                     else tr1)))"

text \<open>
  \<^verbatim>\<open>enabled: !!documentId\<close> stands before the two spreads, so an \<^verbatim>\<open>enabled\<close> of
  \<^verbatim>\<open>cfg.defaultQueryOptions\<close> replaces it, and one of the caller's options replaces both.
\<close>

definition useDocument ::
  "config \<Rightarrow> docSnapshot reads \<Rightarrow> string \<Rightarrow> string option \<Rightarrow> behavior option \<Rightarrow>
     event list \<Rightarrow> fields option queryState \<times> event list" where
  "useDocument cfg r collectionName documentId bhv tr =
     (let debug' = (case bhv of None \<Rightarrow> False
                    | Some b \<Rightarrow> (case b_debug b of None \<Rightarrow> False | Some d \<Rightarrow> d));
          preferCache' = (case bhv of None \<Rightarrow> Default
                          | Some b \<Rightarrow> (case preferCache b of None \<Rightarrow> Default | Some m \<Rightarrow> m));
          enabled0 = (\<not> absent_id documentId);
          enabled1 = (case default_enabled cfg of None \<Rightarrow> enabled0 | Some e \<Rightarrow> e);
          enabled2 = (case bhv of None \<Rightarrow> enabled1
                      | Some b \<Rightarrow> (case b_enabled b of None \<Rightarrow> enabled1 | Some e \<Rightarrow> e))
      in useQuery enabled2
           (useDocument_queryFn cfg r collectionName documentId preferCache' debug') tr)"

section \<open>The write hooks\<close>

text \<open>
  \<^verbatim>\<open>beforeSave\<close> is a function of the caller. It gets an object, may change that object
  in place, and returns a record, which may be the object it got. What a call does is
  given by both: the fields the argument object has when the call is over, and the
  fields of the record returned. A transform that edits its argument in place and
  returns it has the two equal; one that builds a new record leaves the argument as it
  was. The call may also reject.
\<close>

record transformed =
  argument_after :: fields
  returned :: fields

record mutationOpts =
  invalidate :: "bool option"
  enableLogging :: "bool option"
  debug :: "bool option"
  beforeSave :: "(fields \<Rightarrow> error + transformed) option"

text \<open>
  What the store answers to the calls of one mutation: to the write itself
  (\<^verbatim>\<open>addDoc\<close> gives the new identifier), to the read before an update or a delete, and
  to the write of the audit-log entry.
\<close>

record answers =
  ans_addDoc :: "error + string"
  ans_updateDoc :: "error + unit"
  ans_deleteDoc :: "error + unit"
  ans_getDoc :: "docSnapshot reads"
  ans_logDoc :: "error + string"

definition opt_invalidate :: "mutationOpts option \<Rightarrow> bool" where
  "opt_invalidate opts =
     (case opts of None \<Rightarrow> True
      | Some ops \<Rightarrow> (case invalidate ops of None \<Rightarrow> True | Some b \<Rightarrow> b))"

definition opt_enableLogging :: "mutationOpts option \<Rightarrow> bool" where
  "opt_enableLogging opts =
     (case opts of None \<Rightarrow> False
      | Some ops \<Rightarrow> (case enableLogging ops of None \<Rightarrow> False | Some b \<Rightarrow> b))"

definition opt_debug :: "mutationOpts option \<Rightarrow> bool" where
  "opt_debug opts =
     (case opts of None \<Rightarrow> False
      | Some ops \<Rightarrow> (case debug ops of None \<Rightarrow> False | Some b \<Rightarrow> b))"

text \<open>
  \<^verbatim>\<open>beforeSave ? await beforeSave(x) : x\<close> on the object \<open>x\<close>: what the object holds
  afterwards and what the expression gives. Without a transform both are \<open>x\<close>.
\<close>

definition call_beforeSave :: "mutationOpts option \<Rightarrow> fields \<Rightarrow> error + transformed" where
  "call_beforeSave opts x =
     (case opts of
        None \<Rightarrow> Inr \<lparr>argument_after = x, returned = x\<rparr>
      | Some ops \<Rightarrow>
          (case beforeSave ops of
             None \<Rightarrow> Inr \<lparr>argument_after = x, returned = x\<rparr>
           | Some f \<Rightarrow> f x))"

text \<open>The value of the expression alone, for an argument that is not used again.\<close>

definition run_beforeSave :: "mutationOpts option \<Rightarrow> fields \<Rightarrow> error + fields" where
  "run_beforeSave opts x =
     (case call_beforeSave opts x of Inl e \<Rightarrow> Inl e | Inr t \<Rightarrow> Inr (returned t))"

text \<open>\<^verbatim>\<open>cfg.getUserId?.() ?? null\<close>\<close>

definition userId_of :: "config \<Rightarrow> string option" where
  "userId_of cfg = (case getUserId cfg of None \<Rightarrow> None | Some u \<Rightarrow> u)"

definition modifiedBy :: "string option \<Rightarrow> val" where
  "modifiedBy userId = (case userId of None \<Rightarrow> VNull | Some u \<Rightarrow> VStr u)"

subsection \<open>useAddDocument\<close>

text \<open>
  \<open>base\<close> is what the transform returned. \<open>result\<close> spreads the object \<open>data\<close> after the
  transform has run on that very object, so it has the fields the object holds then.
\<close>

definition useAddDocument_mutationFn ::
  "config \<Rightarrow> mutationOpts option \<Rightarrow> answers \<Rightarrow> string \<Rightarrow> nat \<Rightarrow> fields \<Rightarrow> event list \<Rightarrow>
     (error + fields) \<times> event list" where
  "useAddDocument_mutationFn cfg opts ans collectionName clock data tr =
     (let now = VServerTimestamp
      in case call_beforeSave opts data of
           Inl e \<Rightarrow> (Inl e, tr)
         | Inr t \<Rightarrow>
             (let base = returned t;
                  payload = base(''createdAt'' \<mapsto> now, ''updatedAt'' \<mapsto> now);
                  tr1 = (if opt_debug opts
                         then logger_debug cfg (''add '' @ collectionName) tr else tr);
                  tr2 = tr1 @ [AddDoc collectionName payload]
              in case ans_addDoc ans of
                   Inl e \<Rightarrow> (Inl e, tr2)
                 | Inr refId \<Rightarrow>
                     (let result = [''id'' \<mapsto> VStr refId] ++ argument_after t
                      in if opt_enableLogging opts then
                           (let userId = userId_of cfg;
                                tr3 = (if userId = None \<or> userId = Some []
                                       then logger_warn cfg ''logging enabled but no user id''
                                              None tr2
                                       else tr2);
                                logCol = logCol_of cfg collectionName;
                                entry = payload
                                  (''originalDocId'' \<mapsto> VStr refId,
                                   ''action'' \<mapsto> VStr ''CREATE'',
                                   ''modifiedBy'' \<mapsto> modifiedBy userId,
                                   ''modifiedOn'' \<mapsto> VDate clock,
                                   ''timestamp'' \<mapsto> now);
                                tr4 = tr3 @ [AddDoc logCol entry]
                            in case ans_logDoc ans of
                                 Inl e \<Rightarrow>
                                   (Inr result, logger_warn cfg ''log create failed'' (Some e) tr4)
                               | Inr _ \<Rightarrow> (Inr result, tr4))
                         else (Inr result, tr2))))"

definition useAddDocument_onSuccess ::
  "config \<Rightarrow> mutationOpts option \<Rightarrow> string \<Rightarrow> event list \<Rightarrow> event list" where
  "useAddDocument_onSuccess cfg opts collectionName tr =
     (if opt_invalidate opts then
        (let tr1 = tr @ [Invalidate [VStr (getKeyPrefix cfg), VStr ''collection'',
                                     VStr collectionName]]
         in if opt_enableLogging opts
            then tr1 @ [Invalidate [VStr (getKeyPrefix cfg), VStr ''collection'',
                                    VStr (logCol_of cfg collectionName)]]
            else tr1)
      else tr)"

definition hook_onError ::
  "config \<Rightarrow> mutationOpts option \<Rightarrow> string \<Rightarrow> error \<Rightarrow> event list \<Rightarrow> event list" where
  "hook_onError cfg opts ctx e tr =
     (let tr1 = call_onError cfg e ctx tr
      in if opt_debug opts then logger_error cfg e tr1 else tr1)"

definition useAddDocument ::
  "config \<Rightarrow> mutationOpts option \<Rightarrow> answers \<Rightarrow> string \<Rightarrow> nat \<Rightarrow> fields \<Rightarrow> event list \<Rightarrow>
     fields mutationState \<times> event list" where
  "useAddDocument cfg opts ans collectionName clock data tr =
     useMutation
       (useAddDocument_mutationFn cfg opts ans collectionName clock data)
       (\<lambda>_. useAddDocument_onSuccess cfg opts collectionName)
       (hook_onError cfg opts (''useAddDocument:'' @ collectionName))
       tr"

subsection \<open>useUpdateDocument\<close>

text \<open>\<^verbatim>\<open>cfg.logging?.includePreviousData\<close> as a condition.\<close>

definition include_previous :: "config \<Rightarrow> bool" where
  "include_previous cfg =
     (case logging cfg of None \<Rightarrow> False
      | Some l \<Rightarrow> (case includePreviousData l of None \<Rightarrow> False | Some b \<Rightarrow> b))"

text \<open>
  The read of the record before an update or a delete, with its \<^verbatim>\<open>try\<close>: a snapshot
  that exists gives the record with its identifier, every other outcome \<^verbatim>\<open>null\<close>; a
  rejection is a warning with the text \<open>msg\<close>.
\<close>

definition read_before ::
  "config \<Rightarrow> answers \<Rightarrow> docRef \<Rightarrow> string \<Rightarrow> event list \<Rightarrow> fields option \<times> event list" where
  "read_before cfg ans ref msg tr =
     (case getDocByMode (ans_getDoc ans) ref Default tr of
        (Inr snap, tr1) \<Rightarrow>
          (if snap_exists snap
           then Some ([''id'' \<mapsto> VStr (snap_id snap)] ++ snap_data snap) else None,
           tr1)
      | (Inl e, tr1) \<Rightarrow> (None, logger_warn cfg msg (Some e) tr1))"

definition useUpdateDocument_mutationFn ::
  "config \<Rightarrow> mutationOpts option \<Rightarrow> answers \<Rightarrow> string \<Rightarrow> nat \<Rightarrow> fields \<Rightarrow> event list \<Rightarrow>
     (error + fields) \<times> event list" where
  "useUpdateDocument_mutationFn cfg opts ans collectionName clock data tr =
     (let idv = (case data ''id'' of None \<Rightarrow> VUndefined | Some v \<Rightarrow> v);
          update = data(''id'' := None);
          now = VServerTimestamp
      in case run_beforeSave opts update of
           Inl e \<Rightarrow> (Inl e, tr)
         | Inr u \<Rightarrow>
             (let payload = u(''updatedAt'' \<mapsto> now);
                  tr1 = (if opt_debug opts
                         then logger_debug cfg (''update '' @ collectionName) tr else tr);
                  ref = DocRef collectionName idv;
                  (previous, tr2) =
                    (if opt_enableLogging opts \<and> include_previous cfg
                     then read_before cfg ans ref ''failed to fetch previous for logging'' tr1
                     else (None, tr1));
                  tr3 = tr2 @ [UpdateDoc ref payload]
              in case ans_updateDoc ans of
                   Inl e \<Rightarrow> (Inl e, tr3)
                 | Inr _ \<Rightarrow>
                     if opt_enableLogging opts then
                       (let userId = userId_of cfg;
                            logCol = logCol_of cfg collectionName;
                            entry = payload
                              (''originalDocId'' \<mapsto> idv,
                               ''action'' \<mapsto> VStr ''UPDATE'',
                               ''modifiedBy'' \<mapsto> modifiedBy userId,
                               ''modifiedOn'' \<mapsto> VDate clock,
                               ''timestamp'' \<mapsto> now,
                               ''previousData'' \<mapsto>
                                 (case previous of None \<Rightarrow> VUndefined | Some p \<Rightarrow> VObj p));
                            tr4 = tr3 @ [AddDoc logCol entry]
                        in case ans_logDoc ans of
                             Inl e \<Rightarrow>
                               (Inr data, logger_warn cfg ''log update failed'' (Some e) tr4)
                           | Inr _ \<Rightarrow> (Inr data, tr4))
                     else (Inr data, tr3)))"

definition invalidate_written ::
  "config \<Rightarrow> mutationOpts option \<Rightarrow> string \<Rightarrow> val \<Rightarrow> event list \<Rightarrow> event list" where
  "invalidate_written cfg opts collectionName idv tr =
     (let tr1 = tr @ [Invalidate [VStr (getKeyPrefix cfg), VStr ''collection'',
                                  VStr collectionName]];
          tr2 = tr1 @ [Invalidate [VStr (getKeyPrefix cfg), VStr ''document'',
                                   VStr collectionName, idv]]
      in if opt_enableLogging opts
         then tr2 @ [Invalidate [VStr (getKeyPrefix cfg), VStr ''collection'',
                                 VStr (logCol_of cfg collectionName)]]
         else tr2)"

definition useUpdateDocument_onSuccess ::
  "config \<Rightarrow> mutationOpts option \<Rightarrow> string \<Rightarrow> fields \<Rightarrow> event list \<Rightarrow> event list" where
  "useUpdateDocument_onSuccess cfg opts collectionName data tr =
     invalidate_written cfg opts collectionName
       (case data ''id'' of None \<Rightarrow> VUndefined | Some v \<Rightarrow> v) tr"

definition useUpdateDocument ::
  "config \<Rightarrow> mutationOpts option \<Rightarrow> answers \<Rightarrow> string \<Rightarrow> nat \<Rightarrow> fields \<Rightarrow> event list \<Rightarrow>
     fields mutationState \<times> event list" where
  "useUpdateDocument cfg opts ans collectionName clock data tr =
     useMutation
       (useUpdateDocument_mutationFn cfg opts ans collectionName clock data)
       (useUpdateDocument_onSuccess cfg opts collectionName)
       (hook_onError cfg opts (''useUpdateDocument:'' @ collectionName))
       tr"

subsection \<open>useDeleteDocument\<close>

definition useDeleteDocument_mutationFn ::
  "config \<Rightarrow> mutationOpts option \<Rightarrow> answers \<Rightarrow> string \<Rightarrow> nat \<Rightarrow> string \<Rightarrow> event list \<Rightarrow>
     (error + string) \<times> event list" where
  "useDeleteDocument_mutationFn cfg opts ans collectionName clock docId tr =
     (let ref = DocRef collectionName (VStr docId);
          (deletedData, tr1) = read_before cfg ans ref ''pre-delete fetch failed'' tr;
          tr2 = tr1 @ [DeleteDoc ref]
      in case ans_deleteDoc ans of
           Inl e \<Rightarrow> (Inl e, tr2)
         | Inr _ \<Rightarrow>
             (let tr3 = (if opt_debug opts
                         then logger_debug cfg (''deleted '' @ collectionName @ ''/'' @ docId) tr2
                         else tr2)
              in if opt_enableLogging opts then
                   (let logCol = logCol_of cfg collectionName;
                        userId = userId_of cfg;
                        entry =
                          [''originalDocId'' \<mapsto> VStr docId,
                           ''action'' \<mapsto> VStr ''DELETE'',
                           ''modifiedBy'' \<mapsto> modifiedBy userId,
                           ''modifiedOn'' \<mapsto> VDate clock,
                           ''timestamp'' \<mapsto> VServerTimestamp,
                           ''deletedData'' \<mapsto>
                             (case deletedData of None \<Rightarrow> VNull | Some d \<Rightarrow> VObj d)];
                        tr4 = tr3 @ [AddDoc logCol entry]
                    in case ans_logDoc ans of
                         Inl e \<Rightarrow>
                           (Inr docId, logger_warn cfg ''log delete failed'' (Some e) tr4)
                       | Inr _ \<Rightarrow> (Inr docId, tr4))
                 else (Inr docId, tr3)))"

definition useDeleteDocument ::
  "config \<Rightarrow> mutationOpts option \<Rightarrow> answers \<Rightarrow> string \<Rightarrow> nat \<Rightarrow> string \<Rightarrow> event list \<Rightarrow>
     string mutationState \<times> event list" where
  "useDeleteDocument cfg opts ans collectionName clock docId tr =
     useMutation
       (useDeleteDocument_mutationFn cfg opts ans collectionName clock docId)
       (\<lambda>i. invalidate_written cfg opts collectionName (VStr i))
       (hook_onError cfg opts (''useDeleteDocument:'' @ collectionName))
       tr"

text \<open>The events of a trace that invalidate cached reads.\<close>

fun is_invalidate :: "event \<Rightarrow> bool" where
  "is_invalidate (Invalidate _) = True"
| "is_invalidate _ = False"

definition invalidations :: "event list \<Rightarrow> event list" where
  "invalidations tr = filter is_invalidate tr"

text \<open>
  Two transforms as in the scenario of the specification. Both trim the title: the first
  returns a new record (\<^verbatim>\<open>d => ({ ...d, title: d.title.trim() })\<close>), the second edits
  its argument and returns it (\<^verbatim>\<open>d => { d.title = d.title.trim(); return d }\<close>).
\<close>

definition trimmed_title :: "fields \<Rightarrow> fields" where
  "trimmed_title d =
     (case d ''title'' of
        Some (VStr t) \<Rightarrow> d(''title'' \<mapsto> VStr (trim t))
      | _ \<Rightarrow> d)"

definition trim_title :: "fields \<Rightarrow> error + transformed" where
  "trim_title d = Inr \<lparr>argument_after = d, returned = trimmed_title d\<rparr>"

definition trim_title_in_place :: "fields \<Rightarrow> error + transformed" where
  "trim_title_in_place d =
     Inr \<lparr>argument_after = trimmed_title d, returned = trimmed_title d\<rparr>"

section \<open>Vocabulary of the properties\<close>

text \<open>
  What a mutation returned under a field name and what the first write of a trace
  stored under it; whether a mutation ended in success.
\<close>

definition returned_field :: "fields mutationState \<Rightarrow> string \<Rightarrow> val option" where
  "returned_field st k = (case st of MSuccess r \<Rightarrow> r k | MError _ \<Rightarrow> None)"

fun stored_field :: "event list \<Rightarrow> string \<Rightarrow> val option" where
  "stored_field [] k = None"
| "stored_field (AddDoc _ payload # _) k = payload k"
| "stored_field (_ # tr) k = stored_field tr k"

definition succeeded :: "'a mutationState \<Rightarrow> bool" where
  "succeeded st = (case st of MSuccess _ \<Rightarrow> True | MError _ \<Rightarrow> False)"

text \<open>The logger is there and has a \<^verbatim>\<open>warn\<close>.\<close>

definition can_warn :: "config \<Rightarrow> bool" where
  "can_warn cfg = (case cfg_logger cfg of None \<Rightarrow> False | Some l \<Rightarrow> has_warn l)"

text \<open>Configurations and store answers for the examples.\<close>

definition plain_config :: config where
  "plain_config =
     \<lparr>getUserId = None, cfg_logger = None, has_onError = False, keyPrefix = None,
      logging = None, default_enabled = None\<rparr>"

definition warning_config :: config where
  "warning_config =
     \<lparr>getUserId = Some (Some ''ann''),
      cfg_logger = Some \<lparr>has_debug = False, has_warn = True, has_error = False\<rparr>,
      has_onError = False, keyPrefix = None, logging = None, default_enabled = None\<rparr>"

definition no_reads :: "docSnapshot reads" where
  "no_reads =
     \<lparr>fromCache = Inl (Err ''unavailable''), fromServer = Inl (Err ''unavailable''),
      fromSdk = Inl (Err ''unavailable'')\<rparr>"

section \<open>Properties of the storage and the read statistics\<close>

subsection \<open>Storage laws\<close>

lemma getItem_setItem:
  "getItem (setItem s k v) k' = (if k' = k then Some v else getItem s k')"
  by (induction s) (auto simp: getItem_def)

lemma getItem_removeItem:
  "getItem (removeItem s k) k' = (if k' = k then None else getItem s k')"
  by (induction s) (auto simp: getItem_def removeItem_def)

lemma stats_keys_differ: "readCountKey c \<noteq> lastFetchedKey c'"
  by (simp add: readCountKey_def lastFetchedKey_def)

subsection \<open>Decimal digits\<close>

lemma below_ten: "d < 10 \<Longrightarrow> d \<in> {0, 1, 2, 3, 4, 5, 6, 7, 8, 9 :: nat}"
  by auto

lemma digit_char_props:
  assumes "d < 10"
  shows "is_digit (digit_char d)" and "digit_val (digit_char d) = d"
    and "\<not> is_space (digit_char d)"
    and "digit_char d \<noteq> CHR ''+''" and "digit_char d \<noteq> CHR ''-''"
  using below_ten [OF assms]
  by (auto simp: digit_char_def is_digit_def digit_val_def is_space_def)

lemma digits_of_nonempty: "digits_of n \<noteq> []"
  by (subst digits_of.simps) simp

lemma digits_of_chars:
  "c \<in> set (digits_of n) \<Longrightarrow> \<exists>d<10. c = digit_char d"
proof (induction n rule: digits_of.induct)
  case (1 n)
  show ?case
  proof (cases "n < 10")
    case True
    with "1.prems" show ?thesis by (subst (asm) digits_of.simps) auto
  next
    case False
    from "1.prems" have "c \<in> set (digits_of (n div 10)) \<or> c = digit_char (n mod 10)"
      using False by (subst (asm) digits_of.simps) auto
    then show ?thesis
    proof
      assume "c \<in> set (digits_of (n div 10))"
      with "1.IH" False show ?thesis by blast
    next
      assume "c = digit_char (n mod 10)"
      moreover have "n mod 10 < 10" by simp
      ultimately show ?thesis by blast
    qed
  qed
qed

lemma digits_val_snoc: "digits_val (ds @ [c]) = 10 * digits_val ds + digit_val c"
  by (simp add: digits_val_def)

lemma digits_val_digits_of: "digits_val (digits_of n) = n"
proof (induction n rule: digits_of.induct)
  case (1 n)
  show ?case
  proof (cases "n < 10")
    case True
    then show ?thesis
      by (subst digits_of.simps) (simp add: digits_val_def digit_char_props)
  next
    case False
    have "n mod 10 < 10" by simp
    then have "digit_val (digit_char (n mod 10)) = n mod 10"
      by (rule digit_char_props)
    with False "1.IH" show ?thesis
      by (subst digits_of.simps) (simp add: digits_val_snoc)
  qed
qed

lemma dropWhile_none: "(\<And>x. x \<in> set xs \<Longrightarrow> \<not> P x) \<Longrightarrow> dropWhile P xs = xs"
  by (cases xs) auto

lemma trim_no_space:
  assumes "\<And>c. c \<in> set s \<Longrightarrow> \<not> is_space c"
  shows "trim s = s"
proof -
  have "dropWhile is_space s = s" using assms by (rule dropWhile_none)
  moreover have "dropWhile is_space (rev s) = rev s"
    by (rule dropWhile_none) (use assms in simp)
  ultimately show ?thesis by (simp add: trim_def)
qed

lemma all_digits_digits_of: "all_digits (digits_of n)"
  using digits_of_chars digit_char_props(1)
  by (auto simp: all_digits_def digits_of_nonempty list_all_iff)

lemma strip_sign_digits_of: "strip_sign (digits_of n) = digits_of n"
proof (cases "digits_of n")
  case Nil
  then show ?thesis by (simp add: digits_of_nonempty)
next
  case (Cons c r)
  then have "c \<in> set (digits_of n)" by simp
  then obtain d where "d < 10" "c = digit_char d" using digits_of_chars by blast
  then have "c \<noteq> CHR ''+''" "c \<noteq> CHR ''-''" using digit_char_props by auto
  with Cons show ?thesis by (simp add: strip_sign_def)
qed

lemma hd_digits_of: "hd (digits_of n) \<noteq> CHR ''-''"
proof (cases "digits_of n")
  case Nil
  then show ?thesis by (simp add: digits_of_nonempty)
next
  case (Cons c r)
  then have "c \<in> set (digits_of n)" by simp
  then obtain d where "d < 10" "c = digit_char d" using digits_of_chars by blast
  then have "c \<noteq> CHR ''-''" using digit_char_props by auto
  with Cons show ?thesis by simp
qed

lemma js_Number_digits_of:
  assumes "int n \<le> 2 ^ 53"
  shows "js_Number (digits_of n) = Num (int n)"
proof -
  have "\<And>c. c \<in> set (digits_of n) \<Longrightarrow> \<not> is_space c"
    using digits_of_chars digit_char_props(3) by blast
  then have tr: "trim (digits_of n) = digits_of n" by (rule trim_no_space)
  show ?thesis
    using assms
    by (simp add: js_Number_def tr strip_sign_digits_of all_digits_digits_of
        digits_val_digits_of hd_digits_of digits_of_nonempty Let_def)
qed

lemma js_Number_zero: "js_Number ''0'' = Num 0"
  using js_Number_digits_of [of 0] by (simp add: digits_of.simps digit_char_def)

lemma all_digits_decimal: "all_digits u \<Longrightarrow> is_unsigned_decimal u"
proof -
  assume a: "all_digits u"
  then have "\<forall>x\<in>set u. is_digit x" and ne: "u \<noteq> []"
    by (simp_all add: all_digits_def list_all_iff)
  then have tw: "takeWhile is_digit u = u" and dw: "dropWhile is_digit u = []"
    by simp_all
  show ?thesis
    unfolding is_unsigned_decimal_def Let_def tw dw using ne by simp
qed

lemma not_numeric_NaN:
  assumes "\<not> is_numeric_text v"
  shows "js_Number v = NaN"
proof -
  from assms have t: "trim v \<noteq> []"
    and d: "\<not> is_unsigned_decimal (strip_sign (trim v))"
    and r: "\<not> is_non_decimal (trim v)"
    by (simp_all add: is_numeric_text_def Let_def)
  from d have "\<not> all_digits (strip_sign (trim v))"
    using all_digits_decimal by blast
  moreover from d have "strip_sign (trim v) \<noteq> ''Infinity''"
    by (auto simp: is_unsigned_decimal_def)
  ultimately show ?thesis
    using t d r by (simp add: js_Number_def Let_def)
qed

lemma stats_key_empty: "\<not> stats_key []"
  by (simp add: stats_key_def startsWith_def)

lemma scan_keys_filter:
  "scan_keys s i acc = acc @ filter stats_key (map fst (drop i s))"
proof (induction s i acc rule: scan_keys.induct)
  case (1 s i toRemove)
  show ?case
  proof (cases "i < length s")
    case False
    then show ?thesis by (subst scan_keys.simps) (simp add: storage_length_def)
  next
    case True
    then have dr: "drop i s = s ! i # drop (Suc i) s"
      by (simp add: Cons_nth_drop_Suc)
    have key: "storage_key s i = Some (fst (s ! i))"
      using True by (simp add: storage_key_def)
    have len: "i < storage_length s" using True by (simp add: storage_length_def)
    show ?thesis
    proof (cases "fst (s ! i) = []")
      case e: True
      with "1.IH"(2) [OF len key] show ?thesis
        using len key dr stats_key_empty by (subst scan_keys.simps) simp
    next
      case ne: False
      show ?thesis
      proof (cases "stats_key (fst (s ! i))")
        case st: True
        then have c: "startsWith (fst (s ! i)) ''@romyapps:readCount::'' \<or>
            startsWith (fst (s ! i)) ''@romyapps:lastFetched::''"
          by (simp add: stats_key_def)
        from "1.IH"(3) [OF len key ne c] show ?thesis
          using len key dr ne st c by (subst scan_keys.simps) simp
      next
        case nst: False
        then have c: "\<not> (startsWith (fst (s ! i)) ''@romyapps:readCount::'' \<or>
            startsWith (fst (s ! i)) ''@romyapps:lastFetched::'')"
          by (simp add: stats_key_def)
        from "1.IH"(4) [OF len key ne c] show ?thesis
          using len key dr ne nst c by (subst scan_keys.simps) simp
      qed
    qed
  qed
qed

lemma foldl_removeItem:
  "foldl removeItem s ks = filter (\<lambda>e. fst e \<notin> set ks) s"
proof (induction ks arbitrary: s)
  case Nil
  then show ?case by simp
next
  case (Cons k ks)
  have "foldl removeItem (removeItem s k) ks =
        filter (\<lambda>e. fst e \<notin> set ks) (removeItem s k)"
    by (rule Cons.IH)
  also have "\<dots> = filter (\<lambda>e. fst e \<notin> set (k # ks)) s"
    unfolding removeItem_def filter_filter by (rule filter_cong) auto
  finally show ?case by simp
qed

lemma clearAll_filter:
  "clearAllCollectionStats (Some s) =
     (Some (filter (\<lambda>e. \<not> stats_key (fst e)) s), length (filter stats_key (map fst s)))"
proof -
  have "filter (\<lambda>e. fst e \<notin> set (filter stats_key (map fst s))) s =
        filter (\<lambda>e. \<not> stats_key (fst e)) s"
    by (rule filter_cong) auto
  then show ?thesis
    by (simp add: clearAllCollectionStats_def scan_keys_filter foldl_removeItem Let_def)
qed

lemma getItem_filter_keys:
  "getItem (filter (\<lambda>e. \<not> P (fst e)) s) k = (if P k then None else getItem s k)"
  by (induction s) (auto simp: getItem_def)

lemma dom_getItem: "dom (getItem s) = set (map fst s)"
proof -
  have "getItem s = map_of s" by (rule ext) (simp add: getItem_def)
  then show ?thesis by (simp add: dom_map_of_conv_image_fst)
qed

subsection \<open>Clearing all statistics\<close>

text \<open>
  Claim C8. On every storage (a map: no key occurs twice), \<open>clearAllCollectionStats\<close>
  returns the number of keys under the read-count or the last-fetched prefix, the keys
  left are exactly the other keys, and each of them keeps its value.
\<close>
theorem clearAllCollectionStats_frame:
  assumes "distinct (map fst s)"
  shows "\<exists>s'. clearAllCollectionStats (Some s) =
                 (Some s', card {k \<in> dom (getItem s). stats_key k}) \<and>
              dom (getItem s') = {k \<in> dom (getItem s). \<not> stats_key k} \<and>
              (\<forall>k. \<not> stats_key k \<longrightarrow> getItem s' k = getItem s k) \<and>
              distinct (map fst s')"
proof -
  let ?s' = "filter (\<lambda>e. \<not> stats_key (fst e)) s"
  have "distinct (filter stats_key (map fst s))" using assms by (rule distinct_filter)
  then have "card (set (filter stats_key (map fst s))) = length (filter stats_key (map fst s))"
    by (rule distinct_card)
  moreover have "set (filter stats_key (map fst s)) = {k \<in> dom (getItem s). stats_key k}"
    unfolding dom_getItem by auto
  ultimately have n: "length (filter stats_key (map fst s)) =
      card {k \<in> dom (getItem s). stats_key k}" by simp
  have d: "dom (getItem ?s') = {k \<in> dom (getItem s). \<not> stats_key k}"
    by (auto simp: dom_getItem)
  have u: "\<forall>k. \<not> stats_key k \<longrightarrow> getItem ?s' k = getItem s k"
    by (simp add: getItem_filter_keys)
  have w: "distinct (map fst ?s')" using assms by (simp add: distinct_map_filter)
  from n d u w show ?thesis by (simp add: clearAll_filter)
qed

theorem clearAllCollectionStats_frame_witness:
  "clearAllCollectionStats
     (Some [(''@romyapps:readCount::users'', ''41''), (''theme'', ''dark''),
            (''@romyapps:lastFetched::users'', ''2024-01-01T00:00:00.000Z''),
            (''@romyapps'', ''x'')]) =
   (Some [(''theme'', ''dark''), (''@romyapps'', ''x'')], 2)"
  using clearAllCollectionStats_frame
    [of "[(''@romyapps:readCount::users'', ''41''), (''theme'', ''dark''),
          (''@romyapps:lastFetched::users'', ''2024-01-01T00:00:00.000Z''),
          (''@romyapps'', ''x'')]"]
  by (simp add: clearAll_filter stats_key_def startsWith_def)

subsection \<open>Clearing the statistics of one collection\<close>

text \<open>
  Claim C9. After \<open>clearCollectionStats\<close> for a collection, \<open>getCollectionStats\<close> for
  that collection gives \<open>{readCount: 0, lastFetched: null}\<close>, and clearing a second
  time changes nothing.
\<close>
theorem clearCollectionStats_then_get:
  "getCollectionStats (clearCollectionStats storage c) c =
     \<lparr>readCount = Num 0, lastFetched = None\<rparr> \<and>
   clearCollectionStats (clearCollectionStats storage c) c = clearCollectionStats storage c"
proof (cases storage)
  case None
  then show ?thesis by (simp add: getCollectionStats_def clearCollectionStats_def)
next
  case (Some s)
  let ?s' = "removeItem (removeItem s (readCountKey c)) (lastFetchedKey c)"
  have "getItem ?s' (readCountKey c) = None" "getItem ?s' (lastFetchedKey c) = None"
    by (simp_all add: getItem_removeItem)
  moreover have "removeItem (removeItem ?s' (readCountKey c)) (lastFetchedKey c) = ?s'"
    unfolding removeItem_def filter_filter by (rule filter_cong) auto
  ultimately show ?thesis
    using Some by (simp add: getCollectionStats_def clearCollectionStats_def js_Number_zero)
qed

theorem clearCollectionStats_then_get_witness:
  "getCollectionStats
     (clearCollectionStats
        (Some [(''@romyapps:readCount::users'', ''7''), (''theme'', ''dark''),
               (''@romyapps:lastFetched::users'', ''2024-01-01T00:00:00.000Z'')]) ''users'')
     ''users'' = \<lparr>readCount = Num 0, lastFetched = None\<rparr> \<and>
   clearCollectionStats
     (Some [(''@romyapps:readCount::users'', ''7''), (''theme'', ''dark''),
            (''@romyapps:lastFetched::users'', ''2024-01-01T00:00:00.000Z'')]) ''users'' =
   Some [(''theme'', ''dark'')]"
  using clearCollectionStats_then_get
    [of "Some [(''@romyapps:readCount::users'', ''7''), (''theme'', ''dark''),
               (''@romyapps:lastFetched::users'', ''2024-01-01T00:00:00.000Z'')]" "''users''"]
  by (simp add: clearCollectionStats_def removeItem_def readCountKey_def lastFetchedKey_def)

subsection \<open>Recording a read\<close>
lemma records_read_general:
  "records_read s c now (js_add1 (stored_count s c)) (js_String (js_add1 (stored_count s c)))"
  using stats_keys_differ [of c c]
  by (simp add: records_read_def recordReadStats_def stored_count_def Let_def getItem_setItem)

lemma js_Number_abc: "js_Number ''abc'' = NaN"
  by (rule not_numeric_NaN)
     (simp add: is_numeric_text_def trim_def is_space_def strip_sign_def
        is_unsigned_decimal_def is_digit_def is_non_decimal_def)

text \<open>
  Claim C3, amended. For every storage state and every collection name,
  \<open>recordReadStats\<close> reads the stored count with \<^verbatim>\<open>Number\<close>, writes that count plus one as
  \<^verbatim>\<open>String\<close> prints it under the read-count key and the time stamp under the
  last-fetched key, leaves every other key as it was, and returns the new count. An
  absent value counts as \<open>0\<close>, the decimal text of \<open>n\<close> as \<open>n\<close>; a stored text that is
  not numeric counts as \<open>NaN\<close>, not as \<open>0\<close>, and \<open>NaN\<close> is what is written and returned.
\<close>

theorem recordReadStats_counts:
  "records_read s c now (js_add1 (stored_count s c)) (js_String (js_add1 (stored_count s c))) \<and>
   (getItem s (readCountKey c) = None \<longrightarrow>
      stored_count s c = Num 0 \<and> records_read s c now (Num 1) ''1'') \<and>
   (\<forall>n. getItem s (readCountKey c) = Some (digits_of n) \<and> int n < 2 ^ 53 \<longrightarrow>
      stored_count s c = Num (int n) \<and>
      records_read s c now (Num (int n + 1)) (digits_of (n + 1))) \<and>
   (\<forall>v. getItem s (readCountKey c) = Some v \<and> \<not> is_numeric_text v \<longrightarrow>
      stored_count s c = NaN \<and> records_read s c now NaN ''NaN'')"
proof (intro conjI allI impI)
  show "records_read s c now (js_add1 (stored_count s c))
      (js_String (js_add1 (stored_count s c)))"
    by (rule records_read_general)
next
  assume "getItem s (readCountKey c) = None"
  then show z: "stored_count s c = Num 0"
    by (simp add: stored_count_def js_Number_zero)
  from records_read_general [of s c now] show "records_read s c now (Num 1) ''1''"
    by (simp add: z digits_of.simps digit_char_def)
next
  fix n
  assume a: "getItem s (readCountKey c) = Some (digits_of n) \<and> int n < 2 ^ 53"
  then have "js_Number (digits_of n) = Num (int n)"
    by (intro js_Number_digits_of) simp
  with a show z: "stored_count s c = Num (int n)"
    by (simp add: stored_count_def)
  from records_read_general [of s c now] a
  show "records_read s c now (Num (int n + 1)) (digits_of (n + 1))"
    by (simp add: z nat_add_distrib)
next
  fix v
  assume a: "getItem s (readCountKey c) = Some v \<and> \<not> is_numeric_text v"
  then show z: "stored_count s c = NaN"
    by (simp add: stored_count_def not_numeric_NaN)
  from records_read_general [of s c now] show "records_read s c now NaN ''NaN''"
    by (simp add: z)
qed

lemma digits_of_41: "digits_of 41 = ''41''" "digits_of 42 = ''42''"
  by (simp_all add: digits_of.simps digit_char_def)

text \<open>A numeric text that is no run of digits: \<^verbatim>\<open>1e3\<close> is the number \<open>1000\<close>.\<close>

lemma decimal_val_1e3: "decimal_val ''1e3'' = 1000"
  by (simp add: decimal_val_def is_digit_def digits_val_def digit_val_def exponent_val_def
      strip_sign_def pow10_def)

lemma bit_length_1000: "bit_length 1000 = 10" "bit_length (Suc 0) = 1"
  by (simp_all add: bit_length.simps)

lemma ilog2_1000: "ilog2 1000 = 9"
  by (simp add: ilog2_def bit_length_1000 pow2_def Let_def)

lemma round_double_1000: "round_double 1000 = Some 1000"
  by (simp add: round_double_def ilog2_1000 pow2_def round_half_even_def Let_def)

lemma js_Number_1e3: "js_Number ''1e3'' = Num 1000"
  by (simp add: js_Number_def trim_def is_space_def strip_sign_def all_digits_def
      is_digit_def is_unsigned_decimal_def is_exponent_def decimal_val_1e3
      round_double_1000 mk_num_def Let_def)

lemma digits_of_1001: "digits_of 1001 = ''1001''"
  by (simp add: digits_of.simps digit_char_def)

lemma abc_not_numeric: "\<not> is_numeric_text ''abc''"
  by (simp add: is_numeric_text_def trim_def is_space_def strip_sign_def
      is_unsigned_decimal_def is_digit_def is_non_decimal_def)

theorem recordReadStats_counts_witness:
  "recordReadStats (Some [(''theme'', ''dark'')]) ''users'' ''2024-01-01T00:00:00.000Z'' =
     (Some [(''theme'', ''dark''), (''@romyapps:readCount::users'', ''1''),
            (''@romyapps:lastFetched::users'', ''2024-01-01T00:00:00.000Z'')],
      Some (Num 1)) \<and>
   records_read [(''theme'', ''dark'')] ''users'' ''2024-01-01T00:00:00.000Z'' (Num 1) ''1'' \<and>
   records_read [(''@romyapps:readCount::users'', ''41'')] ''users''
     ''2024-01-01T00:00:00.000Z'' (Num 42) ''42'' \<and>
   records_read [(''@romyapps:readCount::users'', ''abc'')] ''users''
     ''2024-01-01T00:00:00.000Z'' NaN ''NaN'' \<and>
   records_read [(''@romyapps:readCount::users'', ''1e3'')] ''users''
     ''2024-01-01T00:00:00.000Z'' (Num 1001) ''1001''"
proof -
  have k: "readCountKey ''users'' = ''@romyapps:readCount::users''"
    by (simp add: readCountKey_def)
  have 5: "records_read [(''@romyapps:readCount::users'', ''1e3'')] ''users''
     ''2024-01-01T00:00:00.000Z'' (Num 1001) ''1001''"
    using recordReadStats_counts
      [of "[(''@romyapps:readCount::users'', ''1e3'')]" "''users''"
          "''2024-01-01T00:00:00.000Z''", THEN conjunct1]
    by (simp add: stored_count_def getItem_def k js_Number_1e3 digits_of_1001)
  have 1: "recordReadStats (Some [(''theme'', ''dark'')]) ''users''
      ''2024-01-01T00:00:00.000Z'' =
     (Some [(''theme'', ''dark''), (''@romyapps:readCount::users'', ''1''),
            (''@romyapps:lastFetched::users'', ''2024-01-01T00:00:00.000Z'')],
      Some (Num 1))"
    by (simp add: recordReadStats_def readCountKey_def lastFetchedKey_def getItem_def
        js_Number_zero digits_of.simps digit_char_def)
  have 2: "records_read [(''theme'', ''dark'')] ''users'' ''2024-01-01T00:00:00.000Z''
      (Num 1) ''1''"
    using recordReadStats_counts
      [of "[(''theme'', ''dark'')]" "''users''" "''2024-01-01T00:00:00.000Z''"]
    by (simp add: getItem_def k)
  have 3: "records_read [(''@romyapps:readCount::users'', ''41'')] ''users''
     ''2024-01-01T00:00:00.000Z'' (Num 42) ''42''"
    using recordReadStats_counts
      [of "[(''@romyapps:readCount::users'', ''41'')]" "''users''"
          "''2024-01-01T00:00:00.000Z''", THEN conjunct2, THEN conjunct2, THEN conjunct1,
          THEN spec, of 41]
    by (simp add: getItem_def k digits_of_41)
  have 4: "records_read [(''@romyapps:readCount::users'', ''abc'')] ''users''
     ''2024-01-01T00:00:00.000Z'' NaN ''NaN''"
    using recordReadStats_counts
      [of "[(''@romyapps:readCount::users'', ''abc'')]" "''users''"
          "''2024-01-01T00:00:00.000Z''", THEN conjunct2, THEN conjunct2, THEN conjunct2,
          THEN spec, of "''abc''"]
    by (simp add: getItem_def k abc_not_numeric)
  from 1 2 3 4 5 show ?thesis by blast
qed

text \<open>
  Claim C3 as stated fails where the stored value is not numeric: with \<^verbatim>\<open>abc\<close> stored,
  the code writes \<^verbatim>\<open>NaN\<close> and returns \<open>NaN\<close>, not \<open>1\<close>.
\<close>

theorem recordReadStats_non_numeric_counterexample:
  "recordReadStats (Some [(''@romyapps:readCount::users'', ''abc'')]) ''users''
     ''2024-01-01T00:00:00.000Z'' =
   (Some [(''@romyapps:readCount::users'', ''NaN''),
          (''@romyapps:lastFetched::users'', ''2024-01-01T00:00:00.000Z'')],
    Some NaN) \<and>
   recordReadStats (Some [(''@romyapps:readCount::users'', ''abc'')]) ''users''
     ''2024-01-01T00:00:00.000Z'' \<noteq>
   (Some [(''@romyapps:readCount::users'', ''1''),
          (''@romyapps:lastFetched::users'', ''2024-01-01T00:00:00.000Z'')],
    Some (Num (0 + 1)))"
  by (simp add: recordReadStats_def readCountKey_def lastFetchedKey_def getItem_def
      js_Number_abc)

section \<open>Properties of the queries, the resolver and the hooks\<close>

subsection \<open>The constraint builder\<close>

lemma foldl_push_where:
  "foldl push_where acc cl =
     acc @ map (\<lambda>c. Where (w_field c) (w_operator c) (w_value c)) cl"
  by (induction cl arbitrary: acc) (simp_all add: push_where_def)

lemma foldl_push_orderBy:
  "foldl push_orderBy acc obs =
     acc @ map (\<lambda>ob. OrderBy (o_field ob) (case o_direction ob of None \<Rightarrow> Asc | Some d \<Rightarrow> d)) obs"
  by (induction obs arbitrary: acc) (simp_all add: push_orderBy_def)

text \<open>
  Claim C5. The builder emits the filter constraints in input order, then the sort
  constraints in input order (ascending where no direction is given), then the limit
  if there is one, then one positional constraint of the cursor's type if the cursor
  has a reference; a cursor without reference emits nothing, and so does an absent
  descriptor. The result is a function of the descriptor alone.
\<close>

theorem buildConstraints_order:
  "buildConstraints None = [] \<and>
   buildConstraints (Some ops) =
     filter_constraints ops @ sort_constraints ops @ limit_constraints ops @
     cursor_constraints ops"
proof -
  have two: "\<And>t. t \<noteq> Before \<Longrightarrow> t = After"
    by (case_tac t) simp_all
  show ?thesis
    by (auto simp: buildConstraints_def Let_def filter_constraints_def sort_constraints_def
        limit_constraints_def cursor_constraints_def foldl_push_where foldl_push_orderBy
        split: option.split cursorType.split dest: two)
qed

theorem buildConstraints_order_witness:
  "buildConstraints
     (Some \<lparr>opt_where = Some [\<lparr>w_field = ''age'', w_operator = Ge, w_value = VNum (Num 18)\<rparr>,
                             \<lparr>w_field = ''city'', w_operator = Eq, w_value = VStr ''Rome''\<rparr>],
            opt_orderBy = Some [\<lparr>o_field = ''age'', o_direction = None\<rparr>,
                               \<lparr>o_field = ''name'', o_direction = Some Desc\<rparr>],
            opt_limit = Some (Num 10),
            opt_cursor = Some \<lparr>c_type = Before,
              c_doc = Some \<lparr>snap_id = ''u7'', snap_exists = True, snap_data = Map.empty\<rparr>\<rparr>\<rparr>) =
   [Where ''age'' Ge (VNum (Num 18)), Where ''city'' Eq (VStr ''Rome''),
    OrderBy ''age'' Asc, OrderBy ''name'' Desc, Limit (Num 10),
    EndBefore \<lparr>snap_id = ''u7'', snap_exists = True, snap_data = Map.empty\<rparr>] \<and>
   buildConstraints
     (Some \<lparr>opt_where = None, opt_orderBy = Some [], opt_limit = None,
            opt_cursor = Some \<lparr>c_type = After, c_doc = None\<rparr>\<rparr>) = []"
  using buildConstraints_order
    [of "\<lparr>opt_where = Some [\<lparr>w_field = ''age'', w_operator = Ge, w_value = VNum (Num 18)\<rparr>,
                             \<lparr>w_field = ''city'', w_operator = Eq, w_value = VStr ''Rome''\<rparr>],
            opt_orderBy = Some [\<lparr>o_field = ''age'', o_direction = None\<rparr>,
                               \<lparr>o_field = ''name'', o_direction = Some Desc\<rparr>],
            opt_limit = Some (Num 10),
            opt_cursor = Some \<lparr>c_type = Before,
              c_doc = Some \<lparr>snap_id = ''u7'', snap_exists = True, snap_data = Map.empty\<rparr>\<rparr>\<rparr>"]
    buildConstraints_order
    [of "\<lparr>opt_where = None, opt_orderBy = Some [], opt_limit = None,
            opt_cursor = Some \<lparr>c_type = After, c_doc = None\<rparr>\<rparr>"]
  by (simp add: filter_constraints_def sort_constraints_def limit_constraints_def
      cursor_constraints_def)

subsection \<open>The cache-mode resolver\<close>

lemma server_reads_append: "server_reads (tr @ tr') = server_reads tr + server_reads tr'"
  by (simp add: server_reads_def)

text \<open>
  Claim C1. With the preference cache-first, for a query and for a single document: if
  the cache read is rejected or its result is empty (no rows; a document that does not
  exist), the server is read once after the cache and what the server answers is the
  result, whatever the cache failure was; if the cache read gives a result that is not
  empty, that is the result and the server is not read.
\<close>

theorem cache_first_resolution:
  "(((\<exists>e. fromCache r = Inl e) \<or> (\<exists>snap. fromCache r = Inr snap \<and> empty_snapshot snap)) \<longrightarrow>
      getDocsByMode r q CacheFirst tr =
        (fromServer r, tr @ [GetDocs FromCache q, GetDocs FromServer q]) \<and>
      server_reads (snd (getDocsByMode r q CacheFirst tr)) = server_reads tr + 1) \<and>
   (\<forall>snap. fromCache r = Inr snap \<and> \<not> empty_snapshot snap \<longrightarrow>
      getDocsByMode r q CacheFirst tr = (Inr snap, tr @ [GetDocs FromCache q]) \<and>
      server_reads (snd (getDocsByMode r q CacheFirst tr)) = server_reads tr) \<and>
   (((\<exists>e. fromCache r' = Inl e) \<or> (\<exists>snap. fromCache r' = Inr snap \<and> \<not> snap_exists snap)) \<longrightarrow>
      getDocByMode r' ref CacheFirst tr =
        (fromServer r', tr @ [GetDoc FromCache ref, GetDoc FromServer ref]) \<and>
      server_reads (snd (getDocByMode r' ref CacheFirst tr)) = server_reads tr + 1) \<and>
   (\<forall>snap. fromCache r' = Inr snap \<and> snap_exists snap \<longrightarrow>
      getDocByMode r' ref CacheFirst tr = (Inr snap, tr @ [GetDoc FromCache ref]) \<and>
      server_reads (snd (getDocByMode r' ref CacheFirst tr)) = server_reads tr)"
  by (auto simp: Let_def server_reads_def split: sum.split)

theorem cache_first_resolution_witness:
  "getDocsByMode
     \<lparr>fromCache = Inr \<lparr>docs = []\<rparr>,
      fromServer = Inr \<lparr>docs = [\<lparr>snap_id = ''u1'', snap_exists = True, snap_data = Map.empty\<rparr>]\<rparr>,
      fromSdk = Inl (Err ''unused'')\<rparr>
     \<lparr>q_collection = ''users'', q_constraints = []\<rparr> CacheFirst [] =
   (Inr \<lparr>docs = [\<lparr>snap_id = ''u1'', snap_exists = True, snap_data = Map.empty\<rparr>]\<rparr>,
    [GetDocs FromCache \<lparr>q_collection = ''users'', q_constraints = []\<rparr>,
     GetDocs FromServer \<lparr>q_collection = ''users'', q_constraints = []\<rparr>]) \<and>
   getDocByMode
     \<lparr>fromCache = Inr \<lparr>snap_id = ''u1'', snap_exists = True, snap_data = Map.empty\<rparr>,
      fromServer = Inl (Err ''offline''), fromSdk = Inl (Err ''unused'')\<rparr>
     (DocRef ''users'' (VStr ''u1'')) CacheFirst [] =
   (Inr \<lparr>snap_id = ''u1'', snap_exists = True, snap_data = Map.empty\<rparr>,
    [GetDoc FromCache (DocRef ''users'' (VStr ''u1''))])"
  using cache_first_resolution
    [of "\<lparr>fromCache = Inr \<lparr>docs = []\<rparr>,
      fromServer = Inr \<lparr>docs = [\<lparr>snap_id = ''u1'', snap_exists = True, snap_data = Map.empty\<rparr>]\<rparr>,
      fromSdk = Inl (Err ''unused'')\<rparr>"
      "\<lparr>q_collection = ''users'', q_constraints = []\<rparr>" "[]"
      "\<lparr>fromCache = Inr \<lparr>snap_id = ''u1'', snap_exists = True, snap_data = Map.empty\<rparr>,
      fromServer = Inl (Err ''offline''), fromSdk = Inl (Err ''unused'')\<rparr>"
      "DocRef ''users'' (VStr ''u1'')"]
  by (simp add: empty_snapshot_def)

text \<open>
  Claim C6. With the preference cache-only, for a query and for a single document, the
  cache read is the only call of the store, and what it answers (a rejection, or a
  snapshot that may be empty or of a document that does not exist) is the result.
\<close>

theorem cache_only_resolution:
  "getDocsByMode r q CacheOnly tr = (fromCache r, tr @ [GetDocs FromCache q]) \<and>
   getDocByMode r' ref CacheOnly tr = (fromCache r', tr @ [GetDoc FromCache ref]) \<and>
   server_reads (snd (getDocsByMode r q CacheOnly tr)) = server_reads tr \<and>
   server_reads (snd (getDocByMode r' ref CacheOnly tr)) = server_reads tr"
  by (simp add: server_reads_def)

theorem cache_only_resolution_witness:
  "getDocsByMode
     \<lparr>fromCache = Inl (Err ''not in cache''),
      fromServer = Inr \<lparr>docs = [\<lparr>snap_id = ''u1'', snap_exists = True, snap_data = Map.empty\<rparr>]\<rparr>,
      fromSdk = Inl (Err ''unused'')\<rparr>
     \<lparr>q_collection = ''users'', q_constraints = []\<rparr> CacheOnly [] =
   (Inl (Err ''not in cache''),
    [GetDocs FromCache \<lparr>q_collection = ''users'', q_constraints = []\<rparr>]) \<and>
   getDocByMode
     \<lparr>fromCache = Inr \<lparr>snap_id = ''u1'', snap_exists = False, snap_data = Map.empty\<rparr>,
      fromServer = Inr \<lparr>snap_id = ''u1'', snap_exists = True, snap_data = Map.empty\<rparr>,
      fromSdk = Inl (Err ''unused'')\<rparr>
     (DocRef ''users'' (VStr ''u1'')) CacheOnly [] =
   (Inr \<lparr>snap_id = ''u1'', snap_exists = False, snap_data = Map.empty\<rparr>,
    [GetDoc FromCache (DocRef ''users'' (VStr ''u1''))])"
  using cache_only_resolution
    [of "\<lparr>fromCache = Inl (Err ''not in cache''),
      fromServer = Inr \<lparr>docs = [\<lparr>snap_id = ''u1'', snap_exists = True, snap_data = Map.empty\<rparr>]\<rparr>,
      fromSdk = Inl (Err ''unused'')\<rparr>"
      "\<lparr>q_collection = ''users'', q_constraints = []\<rparr>" "[]"
      "\<lparr>fromCache = Inr \<lparr>snap_id = ''u1'', snap_exists = False, snap_data = Map.empty\<rparr>,
      fromServer = Inr \<lparr>snap_id = ''u1'', snap_exists = True, snap_data = Map.empty\<rparr>,
      fromSdk = Inl (Err ''unused'')\<rparr>"
      "DocRef ''users'' (VStr ''u1'')"]
  by simp

subsection \<open>The single-document read\<close>

text \<open>
  Claim C7. A single-document read without identifier calls nothing (the trace is
  unchanged) and ends without data and without error: not fetched where the query is
  disabled, \<open>null\<close> where an option of the caller or of the configuration enabled it.
\<close>

theorem useDocument_without_id:
  "\<exists>st. useDocument cfg r collectionName None bhv tr = (st, tr) \<and>
        (st = NotFetched \<or> st = QSuccess None)"
  by (simp add: useDocument_def useQuery_def useDocument_queryFn_def Let_def)

theorem useDocument_without_id_witness:
  "useDocument
     \<lparr>getUserId = None, cfg_logger = None, has_onError = False, keyPrefix = None,
      logging = None, default_enabled = None\<rparr>
     \<lparr>fromCache = Inl (Err ''unused''), fromServer = Inl (Err ''unused''),
      fromSdk = Inl (Err ''unused'')\<rparr>
     ''users'' None None [] = (NotFetched, []) \<and>
   useDocument
     \<lparr>getUserId = None, cfg_logger = None, has_onError = False, keyPrefix = None,
      logging = None, default_enabled = None\<rparr>
     \<lparr>fromCache = Inl (Err ''unused''), fromServer = Inl (Err ''unused''),
      fromSdk = Inl (Err ''unused'')\<rparr>
     ''users'' None
     (Some \<lparr>preferCache = Some ServerOnly, withMeta = None, b_debug = Some True,
            b_enabled = Some True\<rparr>) [] = (QSuccess None, [])"
  using useDocument_without_id
    [of "\<lparr>getUserId = None, cfg_logger = None, has_onError = False, keyPrefix = None,
      logging = None, default_enabled = None\<rparr>"
      "\<lparr>fromCache = Inl (Err ''unused''), fromServer = Inl (Err ''unused''),
      fromSdk = Inl (Err ''unused'')\<rparr>" "''users''" None "[]"]
    useDocument_without_id
    [of "\<lparr>getUserId = None, cfg_logger = None, has_onError = False, keyPrefix = None,
      logging = None, default_enabled = None\<rparr>"
      "\<lparr>fromCache = Inl (Err ''unused''), fromServer = Inl (Err ''unused''),
      fromSdk = Inl (Err ''unused'')\<rparr>" "''users''"
      "Some \<lparr>preferCache = Some ServerOnly, withMeta = None, b_debug = Some True,
            b_enabled = Some True\<rparr>" "[]"]
  by (simp add: useDocument_def useQuery_def useDocument_queryFn_def absent_id_def)

subsection \<open>The state a mutation ends in\<close>

lemma fst_useMutation:
  "fst (useMutation f s e tr) =
     (case fst (f tr) of Inr d \<Rightarrow> MSuccess d | Inl err \<Rightarrow> MError err)"
  by (simp add: useMutation_def split: prod.split sum.split)

lemma add_mutationFn_result:
  "fst (useAddDocument_mutationFn cfg opts ans c clock data tr) =
     (case call_beforeSave opts data of
        Inl e \<Rightarrow> Inl e
      | Inr t \<Rightarrow>
          (case ans_addDoc ans of
             Inl e \<Rightarrow> Inl e
           | Inr newId \<Rightarrow> Inr ([''id'' \<mapsto> VStr newId] ++ argument_after t)))"
  by (simp add: useAddDocument_mutationFn_def Let_def split: sum.split)

lemma update_mutationFn_result:
  "fst (useUpdateDocument_mutationFn cfg opts ans c clock data tr) =
     (case run_beforeSave opts (data(''id'' := None)) of
        Inl e \<Rightarrow> Inl e
      | Inr u \<Rightarrow> (case ans_updateDoc ans of Inl e \<Rightarrow> Inl e | Inr _ \<Rightarrow> Inr data))"
  by (simp add: useUpdateDocument_mutationFn_def Let_def split: sum.split prod.split)

lemma delete_mutationFn_result:
  "fst (useDeleteDocument_mutationFn cfg opts ans c clock docId tr) =
     (case ans_deleteDoc ans of Inl e \<Rightarrow> Inl e | Inr _ \<Rightarrow> Inr docId)"
  by (simp add: useDeleteDocument_mutationFn_def Let_def split: sum.split prod.split)

subsection \<open>Invalidations in a trace\<close>

lemma invalidations_append [simp]:
  "invalidations (tr @ tr') = invalidations tr @ invalidations tr'"
  by (simp add: invalidations_def)

lemma invalidations_Nil [simp]: "invalidations [] = []"
  by (simp add: invalidations_def)

lemma invalidations_Cons [simp]:
  "invalidations (ev # tr) = (if is_invalidate ev then ev # invalidations tr else invalidations tr)"
  by (simp add: invalidations_def)

lemma invalidations_logger [simp]:
  "invalidations (logger_debug cfg msg tr) = invalidations tr"
  "invalidations (logger_warn cfg msg e tr) = invalidations tr"
  "invalidations (logger_error cfg err tr) = invalidations tr"
  "invalidations (call_onError cfg err ctx tr) = invalidations tr"
  by (simp_all add: logger_debug_def logger_warn_def logger_error_def call_onError_def
      split: option.split)

lemma invalidations_hook_onError [simp]:
  "invalidations (hook_onError cfg opts ctx e tr) = invalidations tr"
  by (simp add: hook_onError_def Let_def)

lemma invalidations_getDocByMode [simp]:
  "invalidations (snd (getDocByMode r ref m tr)) = invalidations tr"
  by (cases m) (simp_all add: Let_def split: sum.split)

lemma invalidations_read_before:
  "read_before cfg ans ref msg tr = (p, tr') \<Longrightarrow> invalidations tr' = invalidations tr"
  by (auto simp: read_before_def split: sum.splits if_splits)

lemma invalidations_add_mutationFn:
  "invalidations (snd (useAddDocument_mutationFn cfg opts ans c clock data tr)) =
     invalidations tr"
  by (simp add: useAddDocument_mutationFn_def Let_def split: sum.split)

lemma invalidations_update_mutationFn:
  "invalidations (snd (useUpdateDocument_mutationFn cfg opts ans c clock data tr)) =
     invalidations tr"
  unfolding useUpdateDocument_mutationFn_def Let_def
  by (auto split: sum.split prod.split dest: invalidations_read_before)

lemma invalidations_delete_mutationFn:
  "invalidations (snd (useDeleteDocument_mutationFn cfg opts ans c clock docId tr)) =
     invalidations tr"
  unfolding useDeleteDocument_mutationFn_def Let_def
  by (auto split: sum.split prod.split dest: invalidations_read_before)

subsection \<open>The hooks\<close>

lemma snd_useMutation:
  "snd (useMutation f s e tr) =
     (case fst (f tr) of Inr d \<Rightarrow> s d (snd (f tr)) | Inl err \<Rightarrow> e err (snd (f tr)))"
  by (simp add: useMutation_def split: prod.split sum.split)

lemma invalidations_add_onSuccess:
  "invalidations (useAddDocument_onSuccess cfg opts c tr) =
     invalidations tr @ useAddDocument_onSuccess cfg opts c []"
  by (simp add: useAddDocument_onSuccess_def Let_def)

lemma invalidations_written:
  "invalidations (invalidate_written cfg opts c idv tr) =
     invalidations tr @ invalidate_written cfg opts c idv []"
  by (simp add: invalidate_written_def Let_def)

lemma useAddDocument_state:
  "fst (useAddDocument cfg opts ans c clock data tr) =
     (case call_beforeSave opts data of
        Inl e \<Rightarrow> MError e
      | Inr t \<Rightarrow>
          (case ans_addDoc ans of
             Inl e \<Rightarrow> MError e
           | Inr newId \<Rightarrow> MSuccess ([''id'' \<mapsto> VStr newId] ++ argument_after t)))"
  by (simp add: useAddDocument_def fst_useMutation add_mutationFn_result split: sum.split)

lemma useUpdateDocument_state:
  "fst (useUpdateDocument cfg opts ans c clock data tr) =
     (case run_beforeSave opts (data(''id'' := None)) of
        Inl e \<Rightarrow> MError e
      | Inr u \<Rightarrow> (case ans_updateDoc ans of Inl e \<Rightarrow> MError e | Inr _ \<Rightarrow> MSuccess data))"
  by (simp add: useUpdateDocument_def fst_useMutation update_mutationFn_result split: sum.split)

lemma useDeleteDocument_state:
  "fst (useDeleteDocument cfg opts ans c clock docId tr) =
     (case ans_deleteDoc ans of Inl e \<Rightarrow> MError e | Inr _ \<Rightarrow> MSuccess docId)"
  by (simp add: useDeleteDocument_def fst_useMutation delete_mutationFn_result split: sum.split)

lemma useAddDocument_invalidations:
  "invalidations (snd (useAddDocument cfg opts ans c clock data tr)) =
     invalidations tr @
     (if succeeded (fst (useAddDocument cfg opts ans c clock data tr))
      then useAddDocument_onSuccess cfg opts c [] else [])"
  by (simp add: useAddDocument_def snd_useMutation fst_useMutation succeeded_def
      invalidations_add_mutationFn invalidations_add_onSuccess split: sum.split)

lemma useUpdateDocument_invalidations:
  "invalidations (snd (useUpdateDocument cfg opts ans c clock data tr)) =
     invalidations tr @
     (if succeeded (fst (useUpdateDocument cfg opts ans c clock data tr))
      then useUpdateDocument_onSuccess cfg opts c data [] else [])"
proof (cases "fst (useUpdateDocument_mutationFn cfg opts ans c clock data tr)")
  case (Inl e)
  then show ?thesis
    by (simp add: useUpdateDocument_def snd_useMutation fst_useMutation succeeded_def
        invalidations_update_mutationFn)
next
  case (Inr d)
  then have "d = data"
    by (simp add: update_mutationFn_result split: sum.splits)
  with Inr show ?thesis
    by (simp add: useUpdateDocument_def snd_useMutation fst_useMutation succeeded_def
        invalidations_update_mutationFn useUpdateDocument_onSuccess_def invalidations_written)
qed

lemma useDeleteDocument_invalidations:
  "invalidations (snd (useDeleteDocument cfg opts ans c clock docId tr)) =
     invalidations tr @
     (if succeeded (fst (useDeleteDocument cfg opts ans c clock docId tr))
      then invalidate_written cfg opts c (VStr docId) [] else [])"
proof (cases "fst (useDeleteDocument_mutationFn cfg opts ans c clock docId tr)")
  case (Inl e)
  then show ?thesis
    by (simp add: useDeleteDocument_def snd_useMutation fst_useMutation succeeded_def
        invalidations_delete_mutationFn)
next
  case (Inr d)
  then have "d = docId"
    by (simp add: delete_mutationFn_result split: sum.splits)
  with Inr show ?thesis
    by (simp add: useDeleteDocument_def snd_useMutation fst_useMutation succeeded_def
        invalidations_delete_mutationFn invalidations_written)
qed

subsection \<open>Warnings of a failed audit-log write\<close>

lemma logger_warn_in:
  "can_warn cfg \<Longrightarrow> LogWarn msg e \<in> set (logger_warn cfg msg e tr)"
  by (simp add: can_warn_def logger_warn_def split: option.splits)

lemma add_mutationFn_warns:
  assumes "can_warn cfg" "opt_enableLogging opts" "ans_logDoc ans = Inl e"
    and "fst (useAddDocument_mutationFn cfg opts ans c clock data tr) = Inr d"
  shows "LogWarn ''log create failed'' (Some e) \<in>
           set (snd (useAddDocument_mutationFn cfg opts ans c clock data tr))"
  using assms
  by (auto simp: useAddDocument_mutationFn_def Let_def logger_warn_in split: sum.splits)

lemma update_mutationFn_warns:
  assumes "can_warn cfg" "opt_enableLogging opts" "ans_logDoc ans = Inl e"
    and "fst (useUpdateDocument_mutationFn cfg opts ans c clock data tr) = Inr d"
  shows "LogWarn ''log update failed'' (Some e) \<in>
           set (snd (useUpdateDocument_mutationFn cfg opts ans c clock data tr))"
  using assms
  by (auto simp: useUpdateDocument_mutationFn_def Let_def logger_warn_in
      split: sum.splits prod.splits)

lemma delete_mutationFn_warns:
  assumes "can_warn cfg" "opt_enableLogging opts" "ans_logDoc ans = Inl e"
    and "fst (useDeleteDocument_mutationFn cfg opts ans c clock docId tr) = Inr d"
  shows "LogWarn ''log delete failed'' (Some e) \<in>
           set (snd (useDeleteDocument_mutationFn cfg opts ans c clock docId tr))"
  using assms
  by (auto simp: useDeleteDocument_mutationFn_def Let_def logger_warn_in
      split: sum.splits prod.splits)

lemma onSuccess_keeps:
  "set tr \<subseteq> set (useAddDocument_onSuccess cfg opts c tr)"
  "set tr \<subseteq> set (invalidate_written cfg opts c idv tr)"
  by (auto simp: useAddDocument_onSuccess_def invalidate_written_def Let_def)

lemma succeeded_useMutation:
  "succeeded (fst (useMutation f s e tr)) \<Longrightarrow>
     \<exists>d. fst (f tr) = Inr d \<and> snd (useMutation f s e tr) = s d (snd (f tr))"
  by (auto simp: useMutation_def succeeded_def split: prod.splits sum.splits)

subsection \<open>What the create mutation returns\<close>

text \<open>
  Claim C2, amended. Where the transform and the write succeed, the create mutation
  returns the fields that the caller's input object holds once \<^verbatim>\<open>beforeSave\<close> has run,
  with the new identifier added (an \<open>id\<close> on the object itself stays). For a transform
  that edits its argument in place and returns it these are the post-transform fields;
  for a transform that returns a new record they are the fields as passed in, and the
  transformed record reaches the stored payload only. Every field but \<open>id\<close> is the
  object's, so \<open>createdAt\<close> and \<open>updatedAt\<close> are there only if the object has them; the
  server time stamps are in the stored payload alone.
\<close>

theorem useAddDocument_returns_object:
  "call_beforeSave opts data = Inr t \<and> ans_addDoc ans = Inr newId \<longrightarrow>
     (\<exists>result tr'.
        useAddDocument cfg opts ans c clock data tr = (MSuccess result, tr') \<and>
        (\<forall>k. k \<noteq> ''id'' \<longrightarrow> result k = argument_after t k) \<and>
        result ''id'' =
          (case argument_after t ''id'' of None \<Rightarrow> Some (VStr newId) | Some v \<Rightarrow> Some v) \<and>
        (argument_after t = returned t \<longrightarrow> (\<forall>k. k \<noteq> ''id'' \<longrightarrow> result k = returned t k)) \<and>
        (argument_after t = data \<longrightarrow> (\<forall>k. k \<noteq> ''id'' \<longrightarrow> result k = data k)) \<and>
        (argument_after t ''createdAt'' = None \<longrightarrow> result ''createdAt'' = None) \<and>
        (argument_after t ''updatedAt'' = None \<longrightarrow> result ''updatedAt'' = None) \<and>
        AddDoc c ((returned t)(''createdAt'' \<mapsto> VServerTimestamp,
                               ''updatedAt'' \<mapsto> VServerTimestamp)) \<in> set tr')"
proof (intro impI, elim conjE)
  assume b: "call_beforeSave opts data = Inr t" and a: "ans_addDoc ans = Inr newId"
  let ?result = "[''id'' \<mapsto> VStr newId] ++ argument_after t"
  let ?run = "useAddDocument cfg opts ans c clock data tr"
  let ?stored = "AddDoc c ((returned t)(''createdAt'' \<mapsto> VServerTimestamp,
      ''updatedAt'' \<mapsto> VServerTimestamp))"
  have st: "fst ?run = MSuccess ?result"
    by (simp add: useAddDocument_state a b)
  have "?stored \<in> set (snd (useAddDocument_mutationFn cfg opts ans c clock data tr))"
    using a b
    by (auto simp: useAddDocument_mutationFn_def Let_def logger_warn_def logger_debug_def
        split: sum.splits option.splits)
  moreover have "set (snd (useAddDocument_mutationFn cfg opts ans c clock data tr)) \<subseteq>
      set (snd ?run)"
    using onSuccess_keeps(1) [of _ cfg opts c]
    by (simp add: useAddDocument_def snd_useMutation add_mutationFn_result a b)
  ultimately have tr: "?stored \<in> set (snd ?run)"
    by blast
  have g: "\<And>m k. k \<noteq> ''id'' \<Longrightarrow> ([''id'' \<mapsto> VStr newId] ++ m) k = m k"
    by (simp add: map_add_def split: option.split)
  have f: "\<forall>k. k \<noteq> ''id'' \<longrightarrow> ?result k = argument_after t k"
    by (simp add: g)
  have i: "?result ''id'' =
      (case argument_after t ''id'' of None \<Rightarrow> Some (VStr newId) | Some v \<Rightarrow> Some v)"
    by (simp add: map_add_def split: option.split)
  have "?run = (MSuccess ?result, snd ?run)"
    using st by (simp add: prod_eq_iff)
  with f i tr show "\<exists>result tr'.
        useAddDocument cfg opts ans c clock data tr = (MSuccess result, tr') \<and>
        (\<forall>k. k \<noteq> ''id'' \<longrightarrow> result k = argument_after t k) \<and>
        result ''id'' =
          (case argument_after t ''id'' of None \<Rightarrow> Some (VStr newId) | Some v \<Rightarrow> Some v) \<and>
        (argument_after t = returned t \<longrightarrow> (\<forall>k. k \<noteq> ''id'' \<longrightarrow> result k = returned t k)) \<and>
        (argument_after t = data \<longrightarrow> (\<forall>k. k \<noteq> ''id'' \<longrightarrow> result k = data k)) \<and>
        (argument_after t ''createdAt'' = None \<longrightarrow> result ''createdAt'' = None) \<and>
        (argument_after t ''updatedAt'' = None \<longrightarrow> result ''updatedAt'' = None) \<and>
        AddDoc c ((returned t)(''createdAt'' \<mapsto> VServerTimestamp,
                               ''updatedAt'' \<mapsto> VServerTimestamp)) \<in> set tr'"
    by (intro exI [of _ ?result] exI [of _ "snd ?run"]) (simp add: g)
qed

lemma trim_buy_milk: "trim ''  Buy milk  '' = ''Buy milk''"
  by (simp add: trim_def is_space_def)

lemma trimmed_buy_milk:
  "trimmed_title [''title'' \<mapsto> VStr ''  Buy milk  '', ''completed'' \<mapsto> VBool False] =
     [''title'' \<mapsto> VStr ''  Buy milk  '', ''completed'' \<mapsto> VBool False]
       (''title'' \<mapsto> VStr ''Buy milk'')"
  by (simp add: trimmed_title_def trim_buy_milk)

theorem useAddDocument_returns_object_witness:
  "returned_field
     (fst (useAddDocument plain_config
        (Some \<lparr>invalidate = None, enableLogging = None, debug = None,
               beforeSave = Some trim_title\<rparr>)
        \<lparr>ans_addDoc = Inr ''t1'', ans_updateDoc = Inr (), ans_deleteDoc = Inr (),
         ans_getDoc = no_reads, ans_logDoc = Inr ''l1''\<rparr>
        ''todos'' 0
        [''title'' \<mapsto> VStr ''  Buy milk  '', ''completed'' \<mapsto> VBool False] []))
     ''title'' = Some (VStr ''  Buy milk  '') \<and>
   returned_field
     (fst (useAddDocument plain_config
        (Some \<lparr>invalidate = None, enableLogging = None, debug = None,
               beforeSave = Some trim_title_in_place\<rparr>)
        \<lparr>ans_addDoc = Inr ''t1'', ans_updateDoc = Inr (), ans_deleteDoc = Inr (),
         ans_getDoc = no_reads, ans_logDoc = Inr ''l1''\<rparr>
        ''todos'' 0
        [''title'' \<mapsto> VStr ''  Buy milk  '', ''completed'' \<mapsto> VBool False] []))
     ''title'' = Some (VStr ''Buy milk'') \<and>
   returned_field
     (fst (useAddDocument plain_config
        (Some \<lparr>invalidate = None, enableLogging = None, debug = None,
               beforeSave = Some trim_title_in_place\<rparr>)
        \<lparr>ans_addDoc = Inr ''t1'', ans_updateDoc = Inr (), ans_deleteDoc = Inr (),
         ans_getDoc = no_reads, ans_logDoc = Inr ''l1''\<rparr>
        ''todos'' 0
        [''title'' \<mapsto> VStr ''  Buy milk  '', ''completed'' \<mapsto> VBool False] []))
     ''id'' = Some (VStr ''t1'') \<and>
   returned_field
     (fst (useAddDocument plain_config
        (Some \<lparr>invalidate = None, enableLogging = None, debug = None,
               beforeSave = Some trim_title_in_place\<rparr>)
        \<lparr>ans_addDoc = Inr ''t1'', ans_updateDoc = Inr (), ans_deleteDoc = Inr (),
         ans_getDoc = no_reads, ans_logDoc = Inr ''l1''\<rparr>
        ''todos'' 0
        [''title'' \<mapsto> VStr ''  Buy milk  '', ''completed'' \<mapsto> VBool False] []))
     ''createdAt'' = None"
  using useAddDocument_returns_object
    [where opts = "Some \<lparr>invalidate = None, enableLogging = None, debug = None,
                         beforeSave = Some trim_title\<rparr>"
       and data = "[''title'' \<mapsto> VStr ''  Buy milk  '', ''completed'' \<mapsto> VBool False]"
       and t = "\<lparr>argument_after =
                   [''title'' \<mapsto> VStr ''  Buy milk  '', ''completed'' \<mapsto> VBool False],
                 returned =
                   [''title'' \<mapsto> VStr ''  Buy milk  '', ''completed'' \<mapsto> VBool False]
                     (''title'' \<mapsto> VStr ''Buy milk'')\<rparr>"
       and ans = "\<lparr>ans_addDoc = Inr ''t1'', ans_updateDoc = Inr (), ans_deleteDoc = Inr (),
                   ans_getDoc = no_reads, ans_logDoc = Inr ''l1''\<rparr>"
       and newId = "''t1''" and cfg = plain_config and c = "''todos''" and clock = 0
       and tr = "[]"]
    useAddDocument_returns_object
    [where opts = "Some \<lparr>invalidate = None, enableLogging = None, debug = None,
                         beforeSave = Some trim_title_in_place\<rparr>"
       and data = "[''title'' \<mapsto> VStr ''  Buy milk  '', ''completed'' \<mapsto> VBool False]"
       and t = "\<lparr>argument_after =
                   [''title'' \<mapsto> VStr ''  Buy milk  '', ''completed'' \<mapsto> VBool False]
                     (''title'' \<mapsto> VStr ''Buy milk''),
                 returned =
                   [''title'' \<mapsto> VStr ''  Buy milk  '', ''completed'' \<mapsto> VBool False]
                     (''title'' \<mapsto> VStr ''Buy milk'')\<rparr>"
       and ans = "\<lparr>ans_addDoc = Inr ''t1'', ans_updateDoc = Inr (), ans_deleteDoc = Inr (),
                   ans_getDoc = no_reads, ans_logDoc = Inr ''l1''\<rparr>"
       and newId = "''t1''" and cfg = plain_config and c = "''todos''" and clock = 0
       and tr = "[]"]
  by (auto simp: call_beforeSave_def trim_title_def trim_title_in_place_def trimmed_buy_milk
      returned_field_def)

text \<open>
  Claim C2 as stated fails in its own scenario for a transform that returns a new
  record: the stored payload has the trimmed title, but the value returned has the
  title as the caller passed it.
\<close>

theorem useAddDocument_transform_counterexample:
  "returned_field
     (fst (useAddDocument plain_config
        (Some \<lparr>invalidate = None, enableLogging = None, debug = None,
               beforeSave = Some trim_title\<rparr>)
        \<lparr>ans_addDoc = Inr ''t1'', ans_updateDoc = Inr (), ans_deleteDoc = Inr (),
         ans_getDoc = no_reads, ans_logDoc = Inr ''l1''\<rparr>
        ''todos'' 0
        [''title'' \<mapsto> VStr ''  Buy milk  '', ''completed'' \<mapsto> VBool False] []))
     ''title'' = Some (VStr ''  Buy milk  '') \<and>
   returned_field
     (fst (useAddDocument plain_config
        (Some \<lparr>invalidate = None, enableLogging = None, debug = None,
               beforeSave = Some trim_title\<rparr>)
        \<lparr>ans_addDoc = Inr ''t1'', ans_updateDoc = Inr (), ans_deleteDoc = Inr (),
         ans_getDoc = no_reads, ans_logDoc = Inr ''l1''\<rparr>
        ''todos'' 0
        [''title'' \<mapsto> VStr ''  Buy milk  '', ''completed'' \<mapsto> VBool False] []))
     ''title'' \<noteq> Some (VStr ''Buy milk'') \<and>
   stored_field
     (snd (useAddDocument plain_config
        (Some \<lparr>invalidate = None, enableLogging = None, debug = None,
               beforeSave = Some trim_title\<rparr>)
        \<lparr>ans_addDoc = Inr ''t1'', ans_updateDoc = Inr (), ans_deleteDoc = Inr (),
         ans_getDoc = no_reads, ans_logDoc = Inr ''l1''\<rparr>
        ''todos'' 0
        [''title'' \<mapsto> VStr ''  Buy milk  '', ''completed'' \<mapsto> VBool False] []))
     ''title'' = Some (VStr ''Buy milk'')"
  by (simp add: useAddDocument_def useMutation_def useAddDocument_mutationFn_def
      useAddDocument_onSuccess_def call_beforeSave_def trim_title_def trimmed_buy_milk
      opt_debug_def opt_enableLogging_def opt_invalidate_def returned_field_def
      Let_def)

subsection \<open>What the update mutation returns\<close>



subsection \<open>A failed audit-log write\<close>

lemma useAddDocument_warns:
  assumes "can_warn cfg" "opt_enableLogging opts" "ans_logDoc ans = Inl e"
    and "succeeded (fst (useAddDocument cfg opts ans c clock data tr))"
  shows "LogWarn ''log create failed'' (Some e) \<in>
           set (snd (useAddDocument cfg opts ans c clock data tr))"
proof -
  from assms(4) obtain d where
    d: "fst (useAddDocument_mutationFn cfg opts ans c clock data tr) = Inr d" and
    s: "snd (useAddDocument cfg opts ans c clock data tr) =
          useAddDocument_onSuccess cfg opts c
            (snd (useAddDocument_mutationFn cfg opts ans c clock data tr))"
    unfolding useAddDocument_def by (blast dest: succeeded_useMutation)
  from add_mutationFn_warns [OF assms(1-3) d] onSuccess_keeps(1) show ?thesis
    unfolding s by blast
qed

lemma useUpdateDocument_warns:
  assumes "can_warn cfg" "opt_enableLogging opts" "ans_logDoc ans = Inl e"
    and "succeeded (fst (useUpdateDocument cfg opts ans c clock data tr))"
  shows "LogWarn ''log update failed'' (Some e) \<in>
           set (snd (useUpdateDocument cfg opts ans c clock data tr))"
proof -
  from assms(4) obtain d where
    d: "fst (useUpdateDocument_mutationFn cfg opts ans c clock data tr) = Inr d" and
    s: "snd (useUpdateDocument cfg opts ans c clock data tr) =
          useUpdateDocument_onSuccess cfg opts c d
            (snd (useUpdateDocument_mutationFn cfg opts ans c clock data tr))"
    unfolding useUpdateDocument_def by (blast dest: succeeded_useMutation)
  from update_mutationFn_warns [OF assms(1-3) d] onSuccess_keeps(2) show ?thesis
    unfolding s useUpdateDocument_onSuccess_def by blast
qed

lemma useDeleteDocument_warns:
  assumes "can_warn cfg" "opt_enableLogging opts" "ans_logDoc ans = Inl e"
    and "succeeded (fst (useDeleteDocument cfg opts ans c clock docId tr))"
  shows "LogWarn ''log delete failed'' (Some e) \<in>
           set (snd (useDeleteDocument cfg opts ans c clock docId tr))"
proof -
  from assms(4) obtain d where
    d: "fst (useDeleteDocument_mutationFn cfg opts ans c clock docId tr) = Inr d" and
    s: "snd (useDeleteDocument cfg opts ans c clock docId tr) =
          invalidate_written cfg opts c (VStr d)
            (snd (useDeleteDocument_mutationFn cfg opts ans c clock docId tr))"
    unfolding useDeleteDocument_def by (blast dest: succeeded_useMutation)
  from delete_mutationFn_warns [OF assms(1-3) d] onSuccess_keeps(2) show ?thesis
    unfolding s by blast
qed

text \<open>
  Claim C4. For the create, the update and the delete mutation: whether the write of
  the audit-log entry is rejected or accepted, the mutation ends in the same state with
  the same value, and the same cached reads are invalidated. Where the mutation
  succeeded with audit logging on and the write of the entry was rejected, the logger
  (if it has a \<open>warn\<close>) got the rejection as a warning.
\<close>

theorem audit_log_failure_not_fatal:
  "(fst (useAddDocument cfg opts (ans\<lparr>ans_logDoc := Inl e\<rparr>) c clock data tr) =
      fst (useAddDocument cfg opts (ans\<lparr>ans_logDoc := Inr i\<rparr>) c clock data tr) \<and>
    invalidations (snd (useAddDocument cfg opts (ans\<lparr>ans_logDoc := Inl e\<rparr>) c clock data tr)) =
      invalidations (snd (useAddDocument cfg opts (ans\<lparr>ans_logDoc := Inr i\<rparr>) c clock data tr)) \<and>
    (can_warn cfg \<and> opt_enableLogging opts \<and>
     succeeded (fst (useAddDocument cfg opts (ans\<lparr>ans_logDoc := Inl e\<rparr>) c clock data tr)) \<longrightarrow>
       LogWarn ''log create failed'' (Some e) \<in>
         set (snd (useAddDocument cfg opts (ans\<lparr>ans_logDoc := Inl e\<rparr>) c clock data tr)))) \<and>
   (fst (useUpdateDocument cfg opts (ans\<lparr>ans_logDoc := Inl e\<rparr>) c clock data tr) =
      fst (useUpdateDocument cfg opts (ans\<lparr>ans_logDoc := Inr i\<rparr>) c clock data tr) \<and>
    invalidations (snd (useUpdateDocument cfg opts (ans\<lparr>ans_logDoc := Inl e\<rparr>) c clock data tr)) =
      invalidations (snd (useUpdateDocument cfg opts (ans\<lparr>ans_logDoc := Inr i\<rparr>) c clock data tr)) \<and>
    (can_warn cfg \<and> opt_enableLogging opts \<and>
     succeeded (fst (useUpdateDocument cfg opts (ans\<lparr>ans_logDoc := Inl e\<rparr>) c clock data tr)) \<longrightarrow>
       LogWarn ''log update failed'' (Some e) \<in>
         set (snd (useUpdateDocument cfg opts (ans\<lparr>ans_logDoc := Inl e\<rparr>) c clock data tr)))) \<and>
   (fst (useDeleteDocument cfg opts (ans\<lparr>ans_logDoc := Inl e\<rparr>) c clock docId tr) =
      fst (useDeleteDocument cfg opts (ans\<lparr>ans_logDoc := Inr i\<rparr>) c clock docId tr) \<and>
    invalidations (snd (useDeleteDocument cfg opts (ans\<lparr>ans_logDoc := Inl e\<rparr>) c clock docId tr)) =
      invalidations (snd (useDeleteDocument cfg opts (ans\<lparr>ans_logDoc := Inr i\<rparr>) c clock docId tr)) \<and>
    (can_warn cfg \<and> opt_enableLogging opts \<and>
     succeeded (fst (useDeleteDocument cfg opts (ans\<lparr>ans_logDoc := Inl e\<rparr>) c clock docId tr)) \<longrightarrow>
       LogWarn ''log delete failed'' (Some e) \<in>
         set (snd (useDeleteDocument cfg opts (ans\<lparr>ans_logDoc := Inl e\<rparr>) c clock docId tr))))"
proof (intro conjI impI)
  show "fst (useAddDocument cfg opts (ans\<lparr>ans_logDoc := Inl e\<rparr>) c clock data tr) =
      fst (useAddDocument cfg opts (ans\<lparr>ans_logDoc := Inr i\<rparr>) c clock data tr)"
    by (simp add: useAddDocument_state split: sum.split)
  then show "invalidations (snd (useAddDocument cfg opts (ans\<lparr>ans_logDoc := Inl e\<rparr>) c clock data tr)) =
      invalidations (snd (useAddDocument cfg opts (ans\<lparr>ans_logDoc := Inr i\<rparr>) c clock data tr))"
    by (simp only: useAddDocument_invalidations)
next
  assume "can_warn cfg \<and> opt_enableLogging opts \<and>
     succeeded (fst (useAddDocument cfg opts (ans\<lparr>ans_logDoc := Inl e\<rparr>) c clock data tr))"
  then show "LogWarn ''log create failed'' (Some e) \<in>
         set (snd (useAddDocument cfg opts (ans\<lparr>ans_logDoc := Inl e\<rparr>) c clock data tr))"
    by (intro useAddDocument_warns) simp_all
next
  show "fst (useUpdateDocument cfg opts (ans\<lparr>ans_logDoc := Inl e\<rparr>) c clock data tr) =
      fst (useUpdateDocument cfg opts (ans\<lparr>ans_logDoc := Inr i\<rparr>) c clock data tr)"
    by (simp add: useUpdateDocument_state split: sum.split)
  then show "invalidations (snd (useUpdateDocument cfg opts (ans\<lparr>ans_logDoc := Inl e\<rparr>) c clock data tr)) =
      invalidations (snd (useUpdateDocument cfg opts (ans\<lparr>ans_logDoc := Inr i\<rparr>) c clock data tr))"
    by (simp only: useUpdateDocument_invalidations)
next
  assume "can_warn cfg \<and> opt_enableLogging opts \<and>
     succeeded (fst (useUpdateDocument cfg opts (ans\<lparr>ans_logDoc := Inl e\<rparr>) c clock data tr))"
  then show "LogWarn ''log update failed'' (Some e) \<in>
         set (snd (useUpdateDocument cfg opts (ans\<lparr>ans_logDoc := Inl e\<rparr>) c clock data tr))"
    by (intro useUpdateDocument_warns) simp_all
next
  show "fst (useDeleteDocument cfg opts (ans\<lparr>ans_logDoc := Inl e\<rparr>) c clock docId tr) =
      fst (useDeleteDocument cfg opts (ans\<lparr>ans_logDoc := Inr i\<rparr>) c clock docId tr)"
    by (simp add: useDeleteDocument_state split: sum.split)
  then show "invalidations (snd (useDeleteDocument cfg opts (ans\<lparr>ans_logDoc := Inl e\<rparr>) c clock docId tr)) =
      invalidations (snd (useDeleteDocument cfg opts (ans\<lparr>ans_logDoc := Inr i\<rparr>) c clock docId tr))"
    by (simp only: useDeleteDocument_invalidations)
next
  assume "can_warn cfg \<and> opt_enableLogging opts \<and>
     succeeded (fst (useDeleteDocument cfg opts (ans\<lparr>ans_logDoc := Inl e\<rparr>) c clock docId tr))"
  then show "LogWarn ''log delete failed'' (Some e) \<in>
         set (snd (useDeleteDocument cfg opts (ans\<lparr>ans_logDoc := Inl e\<rparr>) c clock docId tr))"
    by (intro useDeleteDocument_warns) simp_all
qed

lemma logging_on:
  "opt_enableLogging
     (Some \<lparr>invalidate = None, enableLogging = Some True, debug = None, beforeSave = None\<rparr>)"
  by (simp add: opt_enableLogging_def)

lemma warning_config_warns: "can_warn warning_config"
  by (simp add: can_warn_def warning_config_def)

theorem audit_log_failure_not_fatal_witness:
  "fst (useDeleteDocument warning_config
     (Some \<lparr>invalidate = None, enableLogging = Some True, debug = None, beforeSave = None\<rparr>)
     \<lparr>ans_addDoc = Inr ''n1'', ans_updateDoc = Inr (), ans_deleteDoc = Inr (),
      ans_getDoc = no_reads, ans_logDoc = Inl (Err ''denied'')\<rparr>
     ''todos'' 0 ''t1'' []) = MSuccess ''t1'' \<and>
   LogWarn ''log delete failed'' (Some (Err ''denied'')) \<in>
     set (snd (useDeleteDocument warning_config
       (Some \<lparr>invalidate = None, enableLogging = Some True, debug = None, beforeSave = None\<rparr>)
       \<lparr>ans_addDoc = Inr ''n1'', ans_updateDoc = Inr (), ans_deleteDoc = Inr (),
        ans_getDoc = no_reads, ans_logDoc = Inl (Err ''denied'')\<rparr>
       ''todos'' 0 ''t1'' [])) \<and>
   LogWarn ''log create failed'' (Some (Err ''denied'')) \<in>
     set (snd (useAddDocument warning_config
       (Some \<lparr>invalidate = None, enableLogging = Some True, debug = None, beforeSave = None\<rparr>)
       \<lparr>ans_addDoc = Inr ''n1'', ans_updateDoc = Inr (), ans_deleteDoc = Inr (),
        ans_getDoc = no_reads, ans_logDoc = Inl (Err ''denied'')\<rparr>
       ''todos'' 0 [''title'' \<mapsto> VStr ''Buy milk''] [])) \<and>
   LogWarn ''log update failed'' (Some (Err ''denied'')) \<in>
     set (snd (useUpdateDocument warning_config
       (Some \<lparr>invalidate = None, enableLogging = Some True, debug = None, beforeSave = None\<rparr>)
       \<lparr>ans_addDoc = Inr ''n1'', ans_updateDoc = Inr (), ans_deleteDoc = Inr (),
        ans_getDoc = no_reads, ans_logDoc = Inl (Err ''denied'')\<rparr>
       ''todos'' 0 [''id'' \<mapsto> VStr ''t1'', ''title'' \<mapsto> VStr ''Buy milk''] []))"
  using audit_log_failure_not_fatal
    [where cfg = warning_config
       and opts = "Some \<lparr>invalidate = None, enableLogging = Some True, debug = None,
                         beforeSave = None\<rparr>"
       and ans = "\<lparr>ans_addDoc = Inr ''n1'', ans_updateDoc = Inr (), ans_deleteDoc = Inr (),
                   ans_getDoc = no_reads, ans_logDoc = Inl (Err ''denied'')\<rparr>"
       and e = "Err ''denied''" and c = "''todos''" and clock = 0
       and data = "[''title'' \<mapsto> VStr ''Buy milk'']" and tr = "[]" and i = "''l1''"
       and docId = "''t1''"]
    audit_log_failure_not_fatal
    [where cfg = warning_config
       and opts = "Some \<lparr>invalidate = None, enableLogging = Some True, debug = None,
                         beforeSave = None\<rparr>"
       and ans = "\<lparr>ans_addDoc = Inr ''n1'', ans_updateDoc = Inr (), ans_deleteDoc = Inr (),
                   ans_getDoc = no_reads, ans_logDoc = Inl (Err ''denied'')\<rparr>"
       and e = "Err ''denied''" and c = "''todos''" and clock = 0
       and data = "[''id'' \<mapsto> VStr ''t1'', ''title'' \<mapsto> VStr ''Buy milk'']"
       and tr = "[]" and i = "''l1''" and docId = "''t1''"]
  by (simp add: logging_on warning_config_warns useAddDocument_state useUpdateDocument_state
      useDeleteDocument_state succeeded_def run_beforeSave_def call_beforeSave_def)

end
